theory Spec2Isabelle
  imports Main "HOL-Library.Multiset"
begin

section \<open>Strings and numbers of the Go standard library\<close>

text \<open>
  A Go \<^verbatim>\<open>string\<close> is a byte sequence, here a \<^typ>\<open>string\<close>; Go's \<^verbatim>\<open>int\<close> on the
  64-bit targets of this service is a 64-bit signed integer, here an \<^typ>\<open>int\<close> with the
  range check written where the library makes it (\<^verbatim>\<open>strconv.Atoi\<close>).
\<close>

text \<open>\<^verbatim>\<open>strings.HasPrefix\<close>, \<^verbatim>\<open>strings.TrimPrefix\<close>, \<^verbatim>\<open>strings.TrimSuffix\<close>, \<^verbatim>\<open>strings.Contains\<close>.\<close>

definition HasPrefix :: "string \<Rightarrow> string \<Rightarrow> bool" where
  "HasPrefix s p = (take (length p) s = p)"

definition HasSuffix :: "string \<Rightarrow> string \<Rightarrow> bool" where
  "HasSuffix s p = (length p \<le> length s \<and> drop (length s - length p) s = p)"

definition TrimPrefix :: "string \<Rightarrow> string \<Rightarrow> string" where
  "TrimPrefix s p = (if HasPrefix s p then drop (length p) s else s)"

definition TrimSuffix :: "string \<Rightarrow> string \<Rightarrow> string" where
  "TrimSuffix s p = (if HasSuffix s p then take (length s - length p) s else s)"

fun Contains :: "string \<Rightarrow> string \<Rightarrow> bool" where
  "Contains [] sub = (sub = [])"
| "Contains (c # cs) sub = (HasPrefix (c # cs) sub \<or> Contains cs sub)"

text \<open>
  \<^verbatim>\<open>strings.Replace(s, old, new, 1)\<close>: the leftmost occurrence of \<open>old\<close> is replaced, and
  \<open>s\<close> is returned as it is when \<open>old\<close> does not occur.
\<close>

fun Replace1 :: "string \<Rightarrow> string \<Rightarrow> string \<Rightarrow> string" where
  "Replace1 [] old new = (if old = [] then new else [])"
| "Replace1 (c # cs) old new =
     (if HasPrefix (c # cs) old then new @ drop (length old) (c # cs)
      else c # Replace1 cs old new)"

text \<open>Decimal rendering, as \<^verbatim>\<open>fmt.Sprintf("%d", v)\<close> prints an integer.\<close>

definition digit_char :: "nat \<Rightarrow> char" where
  "digit_char d = char_of (48 + d)"

fun nat_digits :: "nat \<Rightarrow> string" where
  "nat_digits n = (if n < 10 then [digit_char n] else nat_digits (n div 10) @ [digit_char (n mod 10)])"

declare nat_digits.simps [simp del]

definition Sprintf_d :: "int \<Rightarrow> string" where
  "Sprintf_d v = (if v < 0 then CHR ''-'' # nat_digits (nat (- v)) else nat_digits (nat v))"

text \<open>
  \<^verbatim>\<open>strconv.Atoi\<close>: an optional sign, then at least one decimal digit and nothing else; a
  value outside the 64-bit range is an error (\<^verbatim>\<open>ErrRange\<close>), like a malformed text
  (\<^verbatim>\<open>ErrSyntax\<close>). \<open>None\<close> is the error return.
\<close>

definition is_digit :: "char \<Rightarrow> bool" where
  "is_digit c = (48 \<le> (of_char c :: nat) \<and> (of_char c :: nat) \<le> 57)"

definition digits_value :: "string \<Rightarrow> nat" where
  "digits_value ds = foldl (\<lambda>acc c. 10 * acc + ((of_char c :: nat) - 48)) 0 ds"

definition Atoi :: "string \<Rightarrow> int option" where
  "Atoi s =
     (let neg = (s \<noteq> [] \<and> hd s = CHR ''-'');
          ds = (if s \<noteq> [] \<and> (hd s = CHR ''-'' \<or> hd s = CHR ''+'') then tl s else s)
      in if ds = [] \<or> \<not> list_all is_digit ds then None
         else let v = (if neg then - int (digits_value ds) else int (digits_value ds))
              in if v < - (2 ^ 63) \<or> 2 ^ 63 - 1 < v then None else Some v)"

section \<open>Telemetry bootstrap (telemetry.go)\<close>

text \<open>
  A shutdown function of a provider acts on the telemetry state \<open>'s\<close> and returns Go's
  \<^verbatim>\<open>error\<close>: \<open>None\<close> is \<^verbatim>\<open>nil\<close>. The closure \<^verbatim>\<open>shutdown\<close> of \<^verbatim>\<open>InitTelemetry\<close> is

  \<^verbatim>\<open>var err error; for _, fn := range shutdownFuncs { err = fn(ctx) }; return err\<close>
\<close>

type_synonym 's shutdown_fn = "'s \<Rightarrow> string option \<times> 's"

fun shutdown_loop :: "'s shutdown_fn list \<Rightarrow> string option \<Rightarrow> 's \<Rightarrow> string option \<times> 's" where
  "shutdown_loop [] err s = (err, s)"
| "shutdown_loop (fn # fns) err s = (case fn s of (err', s') \<Rightarrow> shutdown_loop fns err' s')"

definition shutdown :: "'s shutdown_fn list \<Rightarrow> 's \<Rightarrow> string option \<times> 's" where
  "shutdown shutdownFuncs s = shutdown_loop shutdownFuncs None s"

text \<open>
  The three pipelines. The state of the telemetry layer that matters at shutdown is the
  order in which the providers were shut down; what each provider's \<^verbatim>\<open>Shutdown\<close> returns
  is the SDK's business and a parameter here.
\<close>

datatype pipeline = TracePipeline | MetricPipeline | LogPipeline

definition provider_Shutdown :: "pipeline \<Rightarrow> string option \<Rightarrow> pipeline list shutdown_fn" where
  "provider_Shutdown p outcome = (\<lambda>closed. (outcome, closed @ [p]))"

text \<open>
  \<^verbatim>\<open>InitTelemetry\<close>: the resource and the three exporters are built in turn; a failure
  returns at once, with the shutdown closure over the functions appended so far. The
  construction errors (of \<^verbatim>\<open>resource.New\<close> and of the exporters' constructors) and the
  providers' shutdown outcomes are parameters. The result is the list the returned closure
  ranges over, and the error.
\<close>

record init_faults =
  resource_err :: "string option"
  trace_exporter_err :: "string option"
  metric_exporter_err :: "string option"
  log_exporter_err :: "string option"

record shutdown_outcomes =
  trace_outcome :: "string option"
  metric_outcome :: "string option"
  log_outcome :: "string option"

definition exporter_kind :: "string \<Rightarrow> string" where
  "exporter_kind otlpEndpoint = (if otlpEndpoint \<noteq> [] then ''OTLP'' else ''stdout'')"

definition InitTelemetry ::
  "string \<Rightarrow> init_faults \<Rightarrow> shutdown_outcomes \<Rightarrow> pipeline list shutdown_fn list \<times> string option" where
  "InitTelemetry otlpEndpoint f out =
     (case resource_err f of
        Some e \<Rightarrow> ([], Some (''failed to create resource: '' @ e))
      | None \<Rightarrow>
     (case trace_exporter_err f of
        Some e \<Rightarrow> ([], Some (''failed to create '' @ exporter_kind otlpEndpoint @ '' trace exporter: '' @ e))
      | None \<Rightarrow>
     (let fs1 = [provider_Shutdown TracePipeline (trace_outcome out)] in
      case metric_exporter_err f of
        Some e \<Rightarrow> (fs1, Some (''failed to create '' @ exporter_kind otlpEndpoint @ '' metric exporter: '' @ e))
      | None \<Rightarrow>
     (let fs2 = fs1 @ [provider_Shutdown MetricPipeline (metric_outcome out)] in
      case log_exporter_err f of
        Some e \<Rightarrow> (fs2, Some (''failed to create '' @ exporter_kind otlpEndpoint @ '' log exporter: '' @ e))
      | None \<Rightarrow>
     (let fs3 = fs2 @ [provider_Shutdown LogPipeline (log_outcome out)] in
      (fs3, None))))))"

definition no_faults :: init_faults where
  "no_faults = \<lparr>resource_err = None, trace_exporter_err = None,
                 metric_exporter_err = None, log_exporter_err = None\<rparr>"

section \<open>Persistence layer (the instrumented db.go)\<close>

text \<open>
  Modelled from the spec: the \<^verbatim>\<open>Task\<close> struct, whose declaration (models.go) is not among
  the sources. The spec gives it an integer identifier, a title, a completion flag and a
  creation timestamp; the store's \<^verbatim>\<open>CURRENT_TIMESTAMP\<close> is a number of seconds here.
\<close>

record Task =
  ID :: int
  Title :: string
  Completed :: bool
  CreatedAt :: int

text \<open>Go's \<^verbatim>\<open>error\<close> values of this layer: \<^verbatim>\<open>sql.ErrNoRows\<close>, and any other error by its text.\<close>

datatype error = ErrNoRows | Errorf string

text \<open>
  A bound parameter, \<^verbatim>\<open>driver.NamedValue.Value\<close>. The formatter looks at its dynamic type.
  A float is carried by what \<^verbatim>\<open>%f\<close> prints for it and a value of any other type by what
  \<^verbatim>\<open>%v\<close> prints: the formatter does nothing else with them.
\<close>

datatype Value =
    Nil
  | String string
  | Bytes string
  | Int64 int
  | Float64 string
  | Bool bool
  | Other string

subsection \<open>formatQueryWithArgs\<close>

definition placeholder :: "string \<Rightarrow> nat \<Rightarrow> string" where
  "placeholder query i =
     (if Contains query ''$'' then CHR ''$'' # Sprintf_d (int i + 1) else ''?'')"

fun value_text :: "Value \<Rightarrow> string" where
  "value_text Nil = ''NULL''"
| "value_text (String v) = [CHR 0x27] @ v @ [CHR 0x27]"
| "value_text (Bytes v) = [CHR 0x27] @ v @ [CHR 0x27]"
| "value_text (Int64 v) = Sprintf_d v"
| "value_text (Float64 v) = v"
| "value_text (Bool v) = (if v then ''TRUE'' else ''FALSE'')"
| "value_text (Other v) = v"

text \<open>The loop \<^verbatim>\<open>for i, arg := range args\<close>, with \<open>formattedQuery\<close> as the accumulator.\<close>

fun format_loop :: "string \<Rightarrow> nat \<Rightarrow> Value list \<Rightarrow> string \<Rightarrow> string" where
  "format_loop query i [] formattedQuery = formattedQuery"
| "format_loop query i (arg # args) formattedQuery =
     format_loop query (i + 1) args
       (Replace1 formattedQuery (placeholder query i) (value_text arg))"

definition formatQueryWithArgs :: "string \<Rightarrow> Value list \<Rightarrow> string" where
  "formatQueryWithArgs query args =
     (if length args = 0 then query else format_loop query 0 args query)"

text \<open>
  The formatter as the specification words it: every argument in turn replaces the first
  literal question mark of the text formatted so far.
\<close>

definition spec_format :: "string \<Rightarrow> Value list \<Rightarrow> string" where
  "spec_format query args = foldl (\<lambda>text arg. Replace1 text ''?'' (value_text arg)) query args"

subsection \<open>The store\<close>

text \<open>
  The table \<^verbatim>\<open>tasks\<close> in rowid order, the \<^verbatim>\<open>AUTOINCREMENT\<close> counter of SQLite, and the
  statements the connection has been asked to execute. Each entry keeps the statement text
  and parameters handed to the driver and, beside them, the attribute
  \<^verbatim>\<open>db.statement.formatted\<close> that the attributes getter registered in \<^verbatim>\<open>NewDB\<close> computes
  for the span.
\<close>

record executed =
  stmt_text :: string
  stmt_args :: "Value list"
  span_formatted :: string

record DB =
  rows :: "Task list"
  seq :: int
  journal :: "executed list"

definition empty_DB :: DB where
  "empty_DB = \<lparr>rows = [], seq = 0, journal = []\<rparr>"

definition attributesGetter :: "string \<Rightarrow> Value list \<Rightarrow> string" where
  "attributesGetter query args = formatQueryWithArgs query args"

definition conn_send :: "string \<Rightarrow> Value list \<Rightarrow> DB \<Rightarrow> DB" where
  "conn_send query args db =
     db\<lparr>journal := journal db @
       [\<lparr>stmt_text = query, stmt_args = args, span_formatted = attributesGetter query args\<rparr>]\<rparr>"

definition select_query :: string where
  "select_query = ''SELECT id, title, completed, created_at FROM tasks ORDER BY created_at DESC''"

definition insert_query :: string where
  "insert_query = ''INSERT INTO tasks (title) VALUES (?) RETURNING id, title, completed, created_at''"

definition delete_query :: string where
  "delete_query = ''DELETE FROM tasks WHERE id = ?''"

definition update_query :: string where
  "update_query = ''UPDATE tasks SET completed = 1 WHERE id = ? RETURNING id, title, completed, created_at''"

text \<open>
  What SQLite does for the four statements. A new rowid of an \<^verbatim>\<open>AUTOINCREMENT\<close> column is
  one more than the largest rowid the table has ever held. \<^verbatim>\<open>ORDER BY created_at DESC\<close>
  leaves the order of rows with equal timestamps to the engine; the model keeps them in
  rowid order.
\<close>

definition next_rowid :: "DB \<Rightarrow> int" where
  "next_rowid db = foldr (\<lambda>t m. max (ID t) m) (rows db) (seq db) + 1"

definition sql_select :: "DB \<Rightarrow> Task list" where
  "sql_select db = sort_key (\<lambda>t. - CreatedAt t) (rows db)"

definition sql_insert :: "int \<Rightarrow> string \<Rightarrow> DB \<Rightarrow> Task \<times> DB" where
  "sql_insert now title db =
     (let t = \<lparr>ID = next_rowid db, Title = title, Completed = False, CreatedAt = now\<rparr>
      in (t, db\<lparr>rows := rows db @ [t], seq := ID t\<rparr>))"

definition sql_delete :: "int \<Rightarrow> DB \<Rightarrow> nat \<times> DB" where
  "sql_delete ident db =
     (length (filter (\<lambda>t. ID t = ident) (rows db)),
      db\<lparr>rows := filter (\<lambda>t. ID t \<noteq> ident) (rows db)\<rparr>)"

definition sql_update :: "int \<Rightarrow> DB \<Rightarrow> Task list \<times> DB" where
  "sql_update ident db =
     (let rows' = map (\<lambda>t. if ID t = ident then t\<lparr>Completed := True\<rparr> else t) (rows db)
      in (filter (\<lambda>t. ID t = ident) rows', db\<lparr>rows := rows'\<rparr>))"

subsection \<open>The four operations\<close>

text \<open>
  Every operation takes \<open>fault\<close>, the error of the driver for this call if it fails
  (connectivity, a malformed statement, a failing scan): the statement then has no effect.
  A Go slice that may be \<^verbatim>\<open>nil\<close> is a \<^typ>\<open>'a list option\<close>, \<open>None\<close> being \<^verbatim>\<open>nil\<close>.
\<close>

fun scan_rows :: "Task list \<Rightarrow> Task list option \<Rightarrow> Task list option" where
  "scan_rows [] tasks = tasks"
| "scan_rows (task # rest) tasks =
     scan_rows rest (Some ((case tasks of None \<Rightarrow> [] | Some ts \<Rightarrow> ts) @ [task]))"

definition DB_GetAllTasks :: "string option \<Rightarrow> DB \<Rightarrow> (error + Task list option) \<times> DB" where
  "DB_GetAllTasks fault db =
     (let db1 = conn_send select_query [] db in
      case fault of
        Some e \<Rightarrow> (Inl (Errorf e), db1)
      | None \<Rightarrow> (Inr (scan_rows (sql_select db1) None), db1))"

definition simulated_error :: string where
  "simulated_error =
     ''simulated database error: cannot create task with title '' @ [CHR 0x27] @ ''errorTest'' @ [CHR 0x27]"

definition DB_CreateTask :: "string option \<Rightarrow> int \<Rightarrow> DB \<Rightarrow> string \<Rightarrow> (error + Task) \<times> DB" where
  "DB_CreateTask fault now db title =
     (if title = ''errorTest''
      then (Inl (Errorf simulated_error), db)
      else let db1 = conn_send insert_query [String title] db in
        case fault of
          Some e \<Rightarrow> (Inl (Errorf e), db1)
        | None \<Rightarrow> (case sql_insert now title db1 of (task, db2) \<Rightarrow> (Inr task, db2)))"

definition DB_DeleteTask :: "string option \<Rightarrow> DB \<Rightarrow> int \<Rightarrow> (error + unit) \<times> DB" where
  "DB_DeleteTask fault db ident =
     (let db1 = conn_send delete_query [Int64 ident] db in
      case fault of
        Some e \<Rightarrow> (Inl (Errorf e), db1)
      | None \<Rightarrow>
          (case sql_delete ident db1 of (rowsAffected, db2) \<Rightarrow>
             if rowsAffected = 0 then (Inl ErrNoRows, db2) else (Inr (), db2)))"

definition DB_CompleteTask :: "string option \<Rightarrow> DB \<Rightarrow> int \<Rightarrow> (error + Task) \<times> DB" where
  "DB_CompleteTask fault db ident =
     (let db1 = conn_send update_query [Int64 ident] db in
      case fault of
        Some e \<Rightarrow> (Inl (Errorf e), db1)
      | None \<Rightarrow>
          (case sql_update ident db1 of
             ([], db2) \<Rightarrow> (Inl ErrNoRows, db2)
           | (task # _, db2) \<Rightarrow> (Inr task, db2)))"

section \<open>HTTP: requests, body streams and response writers\<close>

text \<open>
  An \<^verbatim>\<open>io.Reader\<close> is what its successive \<^verbatim>\<open>Read\<close> calls will return: chunks of data and
  failures, and end of stream once the list is exhausted. \<^verbatim>\<open>io.ReadAll\<close> reads until the
  first failure or the end; it returns the data read, the failure if any, and leaves the
  reader after what it consumed (the third component).
\<close>

datatype chunk = Data string | Fail string

type_synonym reader = "chunk list"

fun ReadAll :: "reader \<Rightarrow> string \<times> string option \<times> reader" where
  "ReadAll [] = ([], None, [])"
| "ReadAll (Data d # cs) = (case ReadAll cs of (ds, err, rest) \<Rightarrow> (d @ ds, err, rest))"
| "ReadAll (Fail e # cs) = ([], Some e, cs)"

definition NewReader :: "string \<Rightarrow> reader" where
  "NewReader b = [Data b]"

record Request =
  Method :: string
  Path :: string
  Body :: "reader option"

text \<open>
  The calls a handler makes on its \<^verbatim>\<open>http.ResponseWriter\<close>: \<^verbatim>\<open>Header().Set\<close>,
  \<^verbatim>\<open>WriteHeader\<close> and \<^verbatim>\<open>Write\<close>. A handler is modelled by the calls it makes, in order.
\<close>

datatype wcall = SetHeader string string | WriteHeader int | Write string

text \<open>
  The writer of net/http, as the client sees it: the header and status are fixed by the first
  \<^verbatim>\<open>WriteHeader\<close> (a later one is ignored), a \<^verbatim>\<open>Write\<close> before any \<^verbatim>\<open>WriteHeader\<close> sends
  status 200, and a status that allows no body drops what is written.
\<close>

record ResponseWriter =
  header :: "(string \<times> string) list"
  status :: "int option"
  sent :: string

definition new_ResponseWriter :: ResponseWriter where
  "new_ResponseWriter = \<lparr>header = [], status = None, sent = []\<rparr>"

definition bodyAllowedForStatus :: "int \<Rightarrow> bool" where
  "bodyAllowedForStatus c = (\<not> (100 \<le> c \<and> c \<le> 199) \<and> c \<noteq> 204 \<and> c \<noteq> 304)"

fun w_call :: "ResponseWriter \<Rightarrow> wcall \<Rightarrow> ResponseWriter" where
  "w_call w (SetHeader k v) =
     (if status w = None then w\<lparr>header := (k, v) # filter (\<lambda>kv. fst kv \<noteq> k) (header w)\<rparr> else w)"
| "w_call w (WriteHeader c) = (if status w = None then w\<lparr>status := Some c\<rparr> else w)"
| "w_call w (Write b) =
     (let w' = (if status w = None then w\<lparr>status := Some 200\<rparr> else w)
      in if bodyAllowedForStatus (the (status w')) then w'\<lparr>sent := sent w' @ b\<rparr> else w')"

text \<open>
  The status the client gets for a sequence of calls (200 when nothing set one), and
  \<^verbatim>\<open>http.Error\<close>: two headers, the status, then the message and a newline.
\<close>

definition final_status :: "wcall list \<Rightarrow> int" where
  "final_status cs = (case status (foldl w_call new_ResponseWriter cs) of None \<Rightarrow> 200 | Some c \<Rightarrow> c)"

definition http_Error :: "string \<Rightarrow> int \<Rightarrow> wcall list" where
  "http_Error msg code =
     [SetHeader ''Content-Type'' ''text/plain; charset=utf-8'',
      SetHeader ''X-Content-Type-Options'' ''nosniff'',
      WriteHeader code,
      Write (msg @ [CHR 0x0A])]"

section \<open>Request handlers (handlers.go)\<close>

text \<open>Attributes, and what the two instruments of \<^verbatim>\<open>Handlers\<close> are asked to record.\<close>

datatype attr = StringAttr string string | IntAttr string int

datatype measurement = CounterAdd int "attr list" | HistogramRecord int "attr list"

text \<open>
  What a handler call depends on besides the request and the store: the milliseconds
  \<^verbatim>\<open>time.Since(start)\<close> will report, the store's clock, and the driver's failure if the
  statement of this request fails.
\<close>

record env =
  elapsed :: int
  clock :: int
  fault :: "string option"

text \<open>
  encoding/json is a library and the JSON shape of a \<^verbatim>\<open>Task\<close> is declared in the missing
  models.go, so both directions are parameters: \<open>decodeTitle\<close> is
  \<^verbatim>\<open>json.NewDecoder(r.Body).Decode(&req)\<close> followed by reading \<^verbatim>\<open>req.Title\<close> (\<open>None\<close> when
  \<^verbatim>\<open>Decode\<close> fails, the empty title when the field is absent), \<open>encodeTask\<close> is the JSON
  text of one task. \<^verbatim>\<open>Encoder.Encode\<close> ends its output with a newline.
\<close>

record codec =
  decodeTitle :: "reader option \<Rightarrow> string option"
  encodeTask :: "Task \<Rightarrow> string"

fun join_comma :: "string list \<Rightarrow> string" where
  "join_comma [] = []"
| "join_comma [x] = x"
| "join_comma (x # y # zs) = x @ '','' @ join_comma (y # zs)"

definition Encode_tasks :: "codec \<Rightarrow> Task list \<Rightarrow> string" where
  "Encode_tasks cd tasks = ''['' @ join_comma (map (encodeTask cd) tasks) @ '']'' @ [CHR 0x0A]"

definition Encode_task :: "codec \<Rightarrow> Task \<Rightarrow> string" where
  "Encode_task cd task = encodeTask cd task @ [CHR 0x0A]"

text \<open>The result of a handler call: its calls on the writer, its measurements, the store.\<close>

record outcome =
  calls :: "wcall list"
  measurements :: "measurement list"
  store :: DB

definition enableCORS :: "wcall list" where
  "enableCORS =
     [SetHeader ''Access-Control-Allow-Origin'' ''*'',
      SetHeader ''Access-Control-Allow-Methods'' ''GET, POST, DELETE, OPTIONS'',
      SetHeader ''Access-Control-Allow-Headers'' ''Content-Type'']"

definition recordRequestMetrics :: "int \<Rightarrow> string \<Rightarrow> string \<Rightarrow> int \<Rightarrow> measurement list" where
  "recordRequestMetrics duration method endpoint statusCode =
     (let attrs = [StringAttr ''method'' method, StringAttr ''endpoint'' endpoint,
                   IntAttr ''status_code'' statusCode]
      in [CounterAdd 1 attrs, HistogramRecord duration attrs])"

text \<open>
  The handlers follow the source statement by statement. Logging and the attributes set on
  the request's span have no influence on the response, the measurements or the store and
  are left out; so is \<^verbatim>\<open>notifyExternalAPI\<close>, whose errors \<^verbatim>\<open>CreateTask\<close> discards.
\<close>

definition GetTasks :: "codec \<Rightarrow> env \<Rightarrow> DB \<Rightarrow> Request \<Rightarrow> outcome" where
  "GetTasks cd ev db r =
     (if Method r = ''OPTIONS'' then
        \<lparr>calls = enableCORS @ [WriteHeader 200], measurements = [], store = db\<rparr>
      else if Method r \<noteq> ''GET'' then
        \<lparr>calls = enableCORS @ http_Error ''Method not allowed'' 405, measurements = [], store = db\<rparr>
      else
        let m0 = CounterAdd 1 [StringAttr ''method'' ''GET'', StringAttr ''endpoint'' ''/tasks''] in
        case DB_GetAllTasks (fault ev) db of
          (Inl err, db') \<Rightarrow>
            \<lparr>calls = enableCORS @ http_Error ''Internal server error'' 500,
             measurements = m0 # recordRequestMetrics (elapsed ev) ''GET'' ''/tasks'' 500,
             store = db'\<rparr>
        | (Inr tasks, db') \<Rightarrow>
            let tasks' = (case tasks of None \<Rightarrow> [] | Some ts \<Rightarrow> ts) in
            \<lparr>calls = enableCORS @
               [SetHeader ''Content-Type'' ''application/json'', Write (Encode_tasks cd tasks')],
             measurements = m0 # recordRequestMetrics (elapsed ev) ''GET'' ''/tasks'' 200,
             store = db'\<rparr>)"

definition CreateTask :: "codec \<Rightarrow> env \<Rightarrow> DB \<Rightarrow> Request \<Rightarrow> outcome" where
  "CreateTask cd ev db r =
     (if Method r = ''OPTIONS'' then
        \<lparr>calls = enableCORS @ [WriteHeader 200], measurements = [], store = db\<rparr>
      else if Method r \<noteq> ''POST'' then
        \<lparr>calls = enableCORS @ http_Error ''Method not allowed'' 405, measurements = [], store = db\<rparr>
      else
        case decodeTitle cd (Body r) of
          None \<Rightarrow>
            \<lparr>calls = enableCORS @ http_Error ''Invalid request body'' 400, measurements = [], store = db\<rparr>
        | Some title \<Rightarrow>
            if title = [] then
              \<lparr>calls = enableCORS @ http_Error ''Title is required'' 400, measurements = [], store = db\<rparr>
            else
              (case DB_CreateTask (fault ev) (clock ev) db title of
                 (Inl err, db') \<Rightarrow>
                   \<lparr>calls = enableCORS @ http_Error ''Internal server error'' 500,
                    measurements = recordRequestMetrics (elapsed ev) ''POST'' ''/tasks'' 500,
                    store = db'\<rparr>
               | (Inr task, db') \<Rightarrow>
                   \<lparr>calls = enableCORS @
                      [SetHeader ''Content-Type'' ''application/json'', WriteHeader 201,
                       Write (Encode_task cd task)],
                    measurements = recordRequestMetrics (elapsed ev) ''POST'' ''/tasks'' 201,
                    store = db'\<rparr>))"

definition DeleteTask :: "codec \<Rightarrow> env \<Rightarrow> DB \<Rightarrow> Request \<Rightarrow> outcome" where
  "DeleteTask cd ev db r =
     (if Method r = ''OPTIONS'' then
        \<lparr>calls = enableCORS @ [WriteHeader 200], measurements = [], store = db\<rparr>
      else if Method r \<noteq> ''DELETE'' then
        \<lparr>calls = enableCORS @ http_Error ''Method not allowed'' 405, measurements = [], store = db\<rparr>
      else
        let path = TrimPrefix (Path r) ''/tasks/'' in
        case Atoi path of
          None \<Rightarrow>
            \<lparr>calls = enableCORS @ http_Error ''Invalid task ID'' 400, measurements = [], store = db\<rparr>
        | Some ident \<Rightarrow>
            (case DB_DeleteTask (fault ev) db ident of
               (Inl err, db') \<Rightarrow>
                 if err = ErrNoRows then
                   \<lparr>calls = enableCORS @ http_Error ''Task not found'' 404,
                    measurements = recordRequestMetrics (elapsed ev) ''DELETE'' ''/tasks/:id'' 404,
                    store = db'\<rparr>
                 else
                   \<lparr>calls = enableCORS @ http_Error ''Internal server error'' 500,
                    measurements = recordRequestMetrics (elapsed ev) ''DELETE'' ''/tasks/:id'' 500,
                    store = db'\<rparr>
             | (Inr _, db') \<Rightarrow>
                 \<lparr>calls = enableCORS @ [WriteHeader 204],
                  measurements = recordRequestMetrics (elapsed ev) ''DELETE'' ''/tasks/:id'' 204,
                  store = db'\<rparr>))"

definition CompleteTask :: "codec \<Rightarrow> env \<Rightarrow> DB \<Rightarrow> Request \<Rightarrow> outcome" where
  "CompleteTask cd ev db r =
     (if Method r = ''OPTIONS'' then
        \<lparr>calls = enableCORS @ [WriteHeader 200], measurements = [], store = db\<rparr>
      else if Method r \<noteq> ''POST'' then
        \<lparr>calls = enableCORS @ http_Error ''Method not allowed'' 405, measurements = [], store = db\<rparr>
      else
        let path = TrimSuffix (TrimPrefix (Path r) ''/tasks/'') ''/complete'' in
        case Atoi path of
          None \<Rightarrow>
            \<lparr>calls = enableCORS @ http_Error ''Invalid task ID'' 400, measurements = [], store = db\<rparr>
        | Some ident \<Rightarrow>
            (case DB_CompleteTask (fault ev) db ident of
               (Inl err, db') \<Rightarrow>
                 if err = ErrNoRows then
                   \<lparr>calls = enableCORS @ http_Error ''Task not found'' 404,
                    measurements = recordRequestMetrics (elapsed ev) ''POST'' ''/tasks/:id/complete'' 404,
                    store = db'\<rparr>
                 else
                   \<lparr>calls = enableCORS @ http_Error ''Internal server error'' 500,
                    measurements = recordRequestMetrics (elapsed ev) ''POST'' ''/tasks/:id/complete'' 500,
                    store = db'\<rparr>
             | (Inr task, db') \<Rightarrow>
                 \<lparr>calls = enableCORS @
                    [SetHeader ''Content-Type'' ''application/json'', Write (Encode_task cd task)],
                  measurements = recordRequestMetrics (elapsed ev) ''POST'' ''/tasks/:id/complete'' 200,
                  store = db'\<rparr>))"

section \<open>Body-capturing middleware (middleware.go)\<close>

text \<open>
  The wrapper \<^verbatim>\<open>responseWriter\<close>: the embedded writer, the mirror buffer and the status code
  last set. \<^verbatim>\<open>Header()\<close> is the embedded writer's own method.
\<close>

record responseWriter =
  embedded :: ResponseWriter
  body :: string
  statusCode :: int

fun rw_call :: "responseWriter \<Rightarrow> wcall \<Rightarrow> responseWriter" where
  "rw_call rw (Write b) = (rw\<lparr>body := body rw @ b\<rparr>)\<lparr>embedded := w_call (embedded rw) (Write b)\<rparr>"
| "rw_call rw (WriteHeader c) = (rw\<lparr>statusCode := c\<rparr>)\<lparr>embedded := w_call (embedded rw) (WriteHeader c)\<rparr>"
| "rw_call rw (SetHeader k v) = rw\<lparr>embedded := w_call (embedded rw) (SetHeader k v)\<rparr>"

datatype event = Event string "attr list"

text \<open>
  The request path of the middleware: the events added to the span, and the request the
  next handler is called with. When \<^verbatim>\<open>io.ReadAll\<close> fails, nothing is assigned to
  \<^verbatim>\<open>r.Body\<close>: the handler gets the same reader, after what the failed read consumed.
\<close>

definition capture_request :: "Request \<Rightarrow> event list \<times> Request" where
  "capture_request r =
     (case Body r of
        None \<Rightarrow> ([], r)
      | Some b \<Rightarrow>
          if Method r \<noteq> ''GET'' \<and> Method r \<noteq> ''DELETE'' then
            (case ReadAll b of
               (bodyBytes, None, rest) \<Rightarrow>
                 ([Event ''http.request.body''
                     [StringAttr ''body'' bodyBytes, IntAttr ''size'' (int (length bodyBytes))]],
                  r\<lparr>Body := Some (NewReader bodyBytes)\<rparr>)
             | (bodyBytes, Some err, rest) \<Rightarrow> ([], r\<lparr>Body := Some rest\<rparr>))
          else ([], r))"

definition handler_request :: "Request \<Rightarrow> Request" where
  "handler_request r = snd (capture_request r)"

text \<open>
  A handler, as the middleware sees it: the calls it makes on the writer it is given, and
  whether it returns (\<open>None\<close>) or panics. The result of serving a request through the
  middleware: the writer of the transport, the span's events, the panic that went through.
\<close>

type_synonym handler = "Request \<Rightarrow> wcall list \<times> string option"

record served =
  transport :: ResponseWriter
  events :: "event list"
  panicked :: "string option"

definition BodyTracingMiddleware :: "handler \<Rightarrow> ResponseWriter \<Rightarrow> Request \<Rightarrow> served" where
  "BodyTracingMiddleware next w r =
     (let (request_events, r') = capture_request r;
          rw = \<lparr>embedded = w, body = [], statusCode = 200\<rparr>;
          (cs, panic) = next r';
          rw' = foldl rw_call rw cs
      in case panic of
        Some msg \<Rightarrow> \<lparr>transport = embedded rw', events = request_events, panicked = Some msg\<rparr>
      | None \<Rightarrow>
          \<lparr>transport = embedded rw',
           events = request_events @
             (if length (body rw') > 0 then
                [Event ''http.response.body''
                   [StringAttr ''body'' (body rw'), IntAttr ''size'' (int (length (body rw'))),
                    IntAttr ''status_code'' (statusCode rw')]]
              else []),
           panicked = None\<rparr>)"

text \<open>What a handler reading its request body to the end gets: the data and the failure.\<close>

definition body_content :: "Request \<Rightarrow> (string \<times> string option) option" where
  "body_content r = map_option (\<lambda>b. case ReadAll b of (d, err, rest) \<Rightarrow> (d, err)) (Body r)"

definition read_fails :: "Request \<Rightarrow> bool" where
  "read_fails r =
     (case Body r of
        None \<Rightarrow> False
      | Some b \<Rightarrow> Method r \<noteq> ''GET'' \<and> Method r \<noteq> ''DELETE'' \<and> fst (snd (ReadAll b)) \<noteq> None)"

section \<open>Routing (main.go)\<close>

text \<open>
  A Go slice expression \<^verbatim>\<open>s[lo:]\<close> panics when \<open>lo\<close> is negative or beyond the length.
  \<open>Inl\<close> carries the panic.
\<close>

definition slice_from :: "string \<Rightarrow> int \<Rightarrow> string + string" where
  "slice_from s lo =
     (if lo < 0 \<or> int (length s) < lo then Inl ''slice bounds out of range''
      else Inr (drop (nat lo) s))"

text \<open>The handler registered for the pattern \<^verbatim>\<open>/tasks\<close>.\<close>

definition tasks_handler :: "codec \<Rightarrow> env \<Rightarrow> DB \<Rightarrow> Request \<Rightarrow> outcome" where
  "tasks_handler cd ev db r =
     (if Method r = ''GET'' \<or> Method r = ''OPTIONS'' then GetTasks cd ev db r
      else if Method r = ''POST'' then CreateTask cd ev db r
      else \<lparr>calls = http_Error ''Method not allowed'' 405, measurements = [], store = db\<rparr>)"

text \<open>
  The handler registered for the pattern \<^verbatim>\<open>/tasks/\<close>, which the mux calls for the paths
  below \<^verbatim>\<open>/tasks/\<close> that it does not redirect (see \<open>DefaultServeMux\<close> below). \<^verbatim>\<open>&&\<close>
  evaluates its right operand only when the left one holds.
\<close>

definition tasks_subtree_handler :: "codec \<Rightarrow> env \<Rightarrow> DB \<Rightarrow> Request \<Rightarrow> string + outcome" where
  "tasks_subtree_handler cd ev db r =
     (if Method r = ''DELETE'' \<or> Method r = ''OPTIONS'' then Inr (DeleteTask cd ev db r)
      else if Method r = ''POST'' \<and> length (Path r) > length ''/tasks/'' then
        (case slice_from (Path r) (int (length ''/tasks/'')) of
           Inl panic \<Rightarrow> Inl panic
         | Inr pathSuffix \<Rightarrow>
             if length pathSuffix > 0 then
               (case slice_from pathSuffix (int (length pathSuffix) - 9) of
                  Inl panic \<Rightarrow> Inl panic
                | Inr tail \<Rightarrow>
                    if tail = ''/complete'' then Inr (CompleteTask cd ev db r)
                    else Inr \<lparr>calls = http_Error ''Not found'' 404, measurements = [], store = db\<rparr>)
             else Inr \<lparr>calls = http_Error ''Not found'' 404, measurements = [], store = db\<rparr>)
      else Inr \<lparr>calls = http_Error ''Method not allowed'' 405, measurements = [], store = db\<rparr>)"

text \<open>A handler under the middleware, as \<^verbatim>\<open>main\<close> hands it to \<^verbatim>\<open>http.Handle\<close>.\<close>

definition as_handler :: "(Request \<Rightarrow> string + outcome) \<Rightarrow> handler" where
  "as_handler h = (\<lambda>r. case h r of Inl panic \<Rightarrow> ([], Some panic) | Inr out \<Rightarrow> (calls out, None))"

definition serve_tasks_subtree :: "codec \<Rightarrow> env \<Rightarrow> DB \<Rightarrow> ResponseWriter \<Rightarrow> Request \<Rightarrow> served" where
  "serve_tasks_subtree cd ev db w r =
     BodyTracingMiddleware (as_handler (tasks_subtree_handler cd ev db)) w r"

definition serve_tasks :: "codec \<Rightarrow> env \<Rightarrow> DB \<Rightarrow> ResponseWriter \<Rightarrow> Request \<Rightarrow> served" where
  "serve_tasks cd ev db w r =
     BodyTracingMiddleware (as_handler (\<lambda>r'. Inr (tasks_handler cd ev db r'))) w r"

text \<open>
  \<^verbatim>\<open>main\<close> registers its handlers on \<^verbatim>\<open>http.DefaultServeMux\<close>, which stands in front of
  them. For every method but CONNECT the mux compares the path of the request with its
  cleaned form and, when they differ, answers with a redirect to the cleaned path without
  calling any handler. \<^verbatim>\<open>path.Clean\<close> on a rooted path drops empty and \<^verbatim>\<open>.\<close> elements and
  lets a \<^verbatim>\<open>..\<close> element remove the element before it; \<^verbatim>\<open>cleanPath\<close> of net/http puts a
  trailing slash back. Paths are taken without percent-escapes.
\<close>

fun split_slash :: "string \<Rightarrow> string list" where
  "split_slash [] = [[]]"
| "split_slash (c # cs) =
     (if c = CHR ''/'' then [] # split_slash cs
      else (case split_slash cs of [] \<Rightarrow> [[c]] | e # es \<Rightarrow> (c # e) # es))"

fun clean_elements :: "string list \<Rightarrow> string list \<Rightarrow> string list" where
  "clean_elements kept [] = rev kept"
| "clean_elements kept (e # es) =
     (if e = [] \<or> e = ''.'' then clean_elements kept es
      else if e = ''..'' then clean_elements (tl kept) es
      else clean_elements (e # kept) es)"

fun join_slash :: "string list \<Rightarrow> string" where
  "join_slash [] = []"
| "join_slash [e] = e"
| "join_slash (e # f # es) = e @ ''/'' @ join_slash (f # es)"

definition path_Clean :: "string \<Rightarrow> string" where
  "path_Clean p = CHR ''/'' # join_slash (clean_elements [] (split_slash p))"

definition cleanPath :: "string \<Rightarrow> string" where
  "cleanPath p =
     (if p = [] then ''/''
      else let p' = (if hd p \<noteq> CHR ''/'' then CHR ''/'' # p else p);
               np = path_Clean p'
           in if last p' = CHR ''/'' \<and> np \<noteq> ''/'' then
                (if length p' = length np + 1 \<and> HasPrefix p' np then p' else np @ ''/'')
              else np)"

text \<open>
  What the server does with a request: a redirect of the mux, one of the two task handlers
  under the middleware, or the file server registered for \<^verbatim>\<open>/\<close>, which is not modelled.
\<close>

datatype reply = Redirect string | Handled served | Static

definition DefaultServeMux :: "codec \<Rightarrow> env \<Rightarrow> DB \<Rightarrow> ResponseWriter \<Rightarrow> Request \<Rightarrow> reply" where
  "DefaultServeMux cd ev db w r =
     (if Method r \<noteq> ''CONNECT'' \<and> cleanPath (Path r) \<noteq> Path r then Redirect (cleanPath (Path r))
      else if Path r = ''/tasks'' then Handled (serve_tasks cd ev db w r)
      else if HasPrefix (Path r) ''/tasks/'' then Handled (serve_tasks_subtree cd ev db w r)
      else Static)"

section \<open>Vocabulary of the properties\<close>

text \<open>The four request handlers under one name each, with the endpoint template they record.\<close>

datatype operation = OpGetTasks | OpCreateTask | OpDeleteTask | OpCompleteTask

fun handle :: "operation \<Rightarrow> codec \<Rightarrow> env \<Rightarrow> DB \<Rightarrow> Request \<Rightarrow> outcome" where
  "handle OpGetTasks = GetTasks"
| "handle OpCreateTask = CreateTask"
| "handle OpDeleteTask = DeleteTask"
| "handle OpCompleteTask = CompleteTask"

fun endpoint_template :: "operation \<Rightarrow> string" where
  "endpoint_template OpGetTasks = ''/tasks''"
| "endpoint_template OpCreateTask = ''/tasks''"
| "endpoint_template OpDeleteTask = ''/tasks/:id''"
| "endpoint_template OpCompleteTask = ''/tasks/:id/complete''"

fun is_status_attr :: "attr \<Rightarrow> bool" where
  "is_status_attr (IntAttr k v) = (k = ''status_code'')"
| "is_status_attr (StringAttr k v) = False"

fun is_counter :: "measurement \<Rightarrow> bool" where
  "is_counter (CounterAdd n attrs) = True"
| "is_counter (HistogramRecord d attrs) = False"

fun is_status_counter :: "measurement \<Rightarrow> bool" where
  "is_status_counter (CounterAdd n attrs) = list_ex is_status_attr attrs"
| "is_status_counter (HistogramRecord d attrs) = False"

fun is_duration :: "measurement \<Rightarrow> bool" where
  "is_duration (CounterAdd n attrs) = False"
| "is_duration (HistogramRecord d attrs) = True"

definition request_attrs :: "string \<Rightarrow> string \<Rightarrow> int \<Rightarrow> attr list" where
  "request_attrs method endpoint code =
     [StringAttr ''method'' method, StringAttr ''endpoint'' endpoint, IntAttr ''status_code'' code]"

fun event_name :: "event \<Rightarrow> string" where
  "event_name (Event name attrs) = name"

text \<open>
  What a handler call records for a request, by its response: nothing for a preflight, a
  validation failure (400) or a wrong method (405); otherwise one duration and one counter
  increment that carries a status code, both with the method, the endpoint template and the
  status of the response, and for the create, delete and complete handlers no other counter
  increment.
\<close>

definition recorded_for :: "operation \<Rightarrow> env \<Rightarrow> Request \<Rightarrow> outcome \<Rightarrow> bool" where
  "recorded_for op ev r out =
     (if Method r = ''OPTIONS'' \<or> final_status (calls out) = 400 \<or> final_status (calls out) = 405
      then measurements out = []
      else filter is_duration (measurements out) =
             [HistogramRecord (elapsed ev)
                (request_attrs (Method r) (endpoint_template op) (final_status (calls out)))] \<and>
           filter is_status_counter (measurements out) =
             [CounterAdd 1
                (request_attrs (Method r) (endpoint_template op) (final_status (calls out)))] \<and>
           (op \<noteq> OpGetTasks \<longrightarrow>
              filter is_counter (measurements out) =
                [CounterAdd 1
                   (request_attrs (Method r) (endpoint_template op) (final_status (calls out)))]))"

text \<open>
  Concrete inputs for the examples below. The sample codec stands in for encoding/json: it
  takes the whole request body for the title and prints a task as its title.
\<close>

definition sample_codec :: codec where
  "sample_codec = \<lparr>decodeTitle = map_option (fst \<circ> ReadAll), encodeTask = Title\<rparr>"

definition sample_env :: env where
  "sample_env = \<lparr>elapsed = 3, clock = 1738144800, fault = None\<rparr>"

definition sample_task :: Task where
  "sample_task = \<lparr>ID = 1, Title = ''Buy milk'', Completed = True, CreatedAt = 1738144800\<rparr>"

definition sample_DB :: DB where
  "sample_DB = \<lparr>rows = [sample_task], seq = 1, journal = []\<rparr>"

section \<open>Telemetry shutdown\<close>

text \<open>
  What the shutdown procedure does after a complete initialisation: it calls the shutdown
  of the trace, the metric and the log pipeline, in this order and whatever the earlier
  ones return, and its result is the result of the last of them, the log pipeline's.
\<close>

lemma shutdown_returns_last_outcome:
  "snd (InitTelemetry ep f out) = None \<Longrightarrow>
     shutdown (fst (InitTelemetry ep f out)) closed =
       (log_outcome out, closed @ [TracePipeline, MetricPipeline, LogPipeline])"
  by (auto simp: InitTelemetry_def shutdown_def provider_Shutdown_def Let_def split: option.splits)

lemma shutdown_returns_last_outcome_example:
  "snd (InitTelemetry ''localhost:4317'' no_faults
          \<lparr>trace_outcome = Some ''trace'', metric_outcome = None, log_outcome = Some ''log''\<rparr>) = None \<and>
   shutdown (fst (InitTelemetry ''localhost:4317'' no_faults
          \<lparr>trace_outcome = Some ''trace'', metric_outcome = None, log_outcome = Some ''log''\<rparr>)) [] =
     (Some ''log'', [TracePipeline, MetricPipeline, LogPipeline])"
proof -
  have ok: "snd (InitTelemetry ''localhost:4317'' no_faults
          \<lparr>trace_outcome = Some ''trace'', metric_outcome = None, log_outcome = Some ''log''\<rparr>) = None"
    by (simp add: InitTelemetry_def no_faults_def)
  from shutdown_returns_last_outcome [OF ok, of "[]"] ok show ?thesis by simp
qed

text \<open>
  Claim C4: the shutdown procedure shuts all three pipelines down in sequence and, when
  more than one of them fails, returns the first error. The code misses it. The loop
  assigns the result of every shutdown function to the one variable it returns, so that an
  earlier error is overwritten: when the trace and the metric pipeline fail and the log
  pipeline does not, all three are shut down and the procedure returns no error at all,
  and \<^verbatim>\<open>main\<close>, which logs a failed shutdown only on an error, stays silent; when all
  three fail, the error returned is the log pipeline's, the last one.
\<close>

theorem shutdown_drops_earlier_errors:
  "shutdown (fst (InitTelemetry [] no_faults
          \<lparr>trace_outcome = Some ''trace'', metric_outcome = Some ''metric'', log_outcome = None\<rparr>)) [] =
     (None, [TracePipeline, MetricPipeline, LogPipeline]) \<and>
   shutdown (fst (InitTelemetry [] no_faults
          \<lparr>trace_outcome = Some ''trace'', metric_outcome = Some ''metric'', log_outcome = Some ''log''\<rparr>)) [] =
     (Some ''log'', [TracePipeline, MetricPipeline, LogPipeline])"
  by (simp add: InitTelemetry_def no_faults_def shutdown_def provider_Shutdown_def)

section \<open>Routing below /tasks/\<close>

lemma capture_request_keeps_route:
  "Method (snd (capture_request r)) = Method r \<and> Path (snd (capture_request r)) = Path r"
  by (auto simp: capture_request_def split: option.splits prod.splits)

lemma split_slash_none: "CHR ''/'' \<notin> set s \<Longrightarrow> split_slash s = [s]"
  by (induction s) auto

lemma cleanPath_plain_suffix:
  assumes "CHR ''/'' \<notin> set sfx" and "sfx \<noteq> []" and "sfx \<noteq> ''.''" and "sfx \<noteq> ''..''"
  shows "cleanPath (''/tasks/'' @ sfx) = ''/tasks/'' @ sfx"
proof -
  have c: "path_Clean (''/tasks/'' @ sfx) = ''/tasks/'' @ sfx"
    using assms(2,3,4) by (simp add: path_Clean_def split_slash_none[OF assms(1)])
  have l: "last (''/tasks/'' @ sfx) \<noteq> CHR ''/''"
    using assms(1,2) by (metis last_appendR last_in_set)
  show ?thesis
    using c l by (simp add: cleanPath_def Let_def)
qed

text \<open>
  Claim C6, as the code has it. A POST request whose path is \<^verbatim>\<open>/tasks/\<close> followed by one
  to eight characters makes the handler of the subtree panic in its slice expression
  whenever it is called with it. The mux calls it when the path is its own cleaned form,
  which is the case of every suffix without a slash other than \<^verbatim>\<open>.\<close> and \<^verbatim>\<open>..\<close>: the panic
  then goes through the middleware with nothing written to the transport, so that no
  response is produced. For a path that is not its cleaned form the mux answers with a
  redirect to the cleaned path and the handler is not called.
\<close>

theorem short_suffix_panics:
  assumes "Method r = ''POST''" and "Path r = ''/tasks/'' @ sfx"
    and "0 < length sfx" and "length sfx < 9"
  shows "tasks_subtree_handler cd ev db r = Inl ''slice bounds out of range'' \<and>
         (cleanPath (Path r) = Path r \<longrightarrow>
            DefaultServeMux cd ev db w r = Handled (serve_tasks_subtree cd ev db w r) \<and>
            panicked (serve_tasks_subtree cd ev db w r) = Some ''slice bounds out of range'' \<and>
            transport (serve_tasks_subtree cd ev db w r) = w) \<and>
         (cleanPath (Path r) \<noteq> Path r \<longrightarrow>
            DefaultServeMux cd ev db w r = Redirect (cleanPath (Path r))) \<and>
         (CHR ''/'' \<notin> set sfx \<and> sfx \<noteq> ''.'' \<and> sfx \<noteq> ''..'' \<longrightarrow> cleanPath (Path r) = Path r)"
proof -
  have h: "\<And>r'. Method r' = ''POST'' \<Longrightarrow> Path r' = ''/tasks/'' @ sfx \<Longrightarrow>
     tasks_subtree_handler cd ev db r' = Inl ''slice bounds out of range''"
    using assms(3,4) by (simp add: tasks_subtree_handler_def slice_from_def)
  have n: "as_handler (tasks_subtree_handler cd ev db) (snd (capture_request r)) =
      ([], Some ''slice bounds out of range'')"
    using h[of "snd (capture_request r)"] capture_request_keeps_route[of r] assms(1,2)
    by (simp add: as_handler_def)
  have p: "panicked (serve_tasks_subtree cd ev db w r) = Some ''slice bounds out of range'' \<and>
            transport (serve_tasks_subtree cd ev db w r) = w"
    using n by (simp add: serve_tasks_subtree_def BodyTracingMiddleware_def split_beta Let_def)
  have m: "Method r \<noteq> ''CONNECT''" using assms(1) by simp
  have ne: "Path r \<noteq> ''/tasks''" using assms(2) by simp
  have pre: "HasPrefix (Path r) ''/tasks/''" using assms(2) by (simp add: HasPrefix_def)
  have d: "cleanPath (Path r) = Path r \<Longrightarrow>
      DefaultServeMux cd ev db w r = Handled (serve_tasks_subtree cd ev db w r)"
    using ne pre by (simp add: DefaultServeMux_def)
  have e: "cleanPath (Path r) \<noteq> Path r \<Longrightarrow>
      DefaultServeMux cd ev db w r = Redirect (cleanPath (Path r))"
    using m by (simp add: DefaultServeMux_def)
  have f: "CHR ''/'' \<notin> set sfx \<Longrightarrow> sfx \<noteq> ''.'' \<Longrightarrow> sfx \<noteq> ''..'' \<Longrightarrow> cleanPath (Path r) = Path r"
    using cleanPath_plain_suffix[of sfx] assms(2,3) by simp
  show ?thesis
    using h[OF assms(1,2)] p d e f by blast
qed

lemma cleanPath_tasks_12: "cleanPath ''/tasks/12'' = ''/tasks/12''"
  by (simp add: cleanPath_def path_Clean_def HasPrefix_def Let_def)

lemma cleanPath_tasks_dot: "cleanPath ''/tasks/./12'' = ''/tasks/12''"
  by (simp add: cleanPath_def path_Clean_def HasPrefix_def Let_def)

lemma cleanPath_tasks_slash: "cleanPath ''/tasks//'' = ''/tasks/''"
  by (simp add: cleanPath_def path_Clean_def HasPrefix_def Let_def)

theorem short_suffix_panics_witness:
  "cleanPath ''/tasks/12'' = ''/tasks/12'' \<and>
   DefaultServeMux sample_codec sample_env empty_DB new_ResponseWriter
     \<lparr>Method = ''POST'', Path = ''/tasks/12'', Body = Some []\<rparr> =
     Handled (serve_tasks_subtree sample_codec sample_env empty_DB new_ResponseWriter
       \<lparr>Method = ''POST'', Path = ''/tasks/12'', Body = Some []\<rparr>) \<and>
   panicked (serve_tasks_subtree sample_codec sample_env empty_DB new_ResponseWriter
     \<lparr>Method = ''POST'', Path = ''/tasks/12'', Body = Some []\<rparr>) = Some ''slice bounds out of range'' \<and>
   transport (serve_tasks_subtree sample_codec sample_env empty_DB new_ResponseWriter
     \<lparr>Method = ''POST'', Path = ''/tasks/12'', Body = Some []\<rparr>) = new_ResponseWriter \<and>
   cleanPath ''/tasks/./12'' \<noteq> ''/tasks/./12'' \<and>
   DefaultServeMux sample_codec sample_env empty_DB new_ResponseWriter
     \<lparr>Method = ''POST'', Path = ''/tasks/./12'', Body = Some []\<rparr> = Redirect ''/tasks/12''"
  using short_suffix_panics [of "\<lparr>Method = ''POST'', Path = ''/tasks/12'', Body = Some []\<rparr>" "''12''"
      sample_codec sample_env empty_DB new_ResponseWriter]
    short_suffix_panics [of "\<lparr>Method = ''POST'', Path = ''/tasks/./12'', Body = Some []\<rparr>" "''./12''"
      sample_codec sample_env empty_DB new_ResponseWriter]
  by (simp add: cleanPath_tasks_12 cleanPath_tasks_dot)

text \<open>
  Claim C6 as stated fails for a suffix that the mux cleans away: POST \<^verbatim>\<open>/tasks//\<close> has the
  one-character suffix \<^verbatim>\<open>/\<close>, and it is answered by a redirect to \<^verbatim>\<open>/tasks/\<close>; the slice
  expression is never reached.
\<close>

theorem short_suffix_redirect_counterexample:
  "DefaultServeMux sample_codec sample_env empty_DB new_ResponseWriter
     \<lparr>Method = ''POST'', Path = ''/tasks//'', Body = Some []\<rparr> = Redirect ''/tasks/''"
  by (simp add: DefaultServeMux_def cleanPath_tasks_slash)

section \<open>The body-capturing middleware\<close>

lemma rw_call_forwards: "embedded (foldl rw_call rw cs) = foldl w_call (embedded rw) cs"
proof (induction cs arbitrary: rw)
  case Nil
  show ?case by simp
next
  case (Cons c cs)
  have "embedded (rw_call rw c) = w_call (embedded rw) c"
    by (cases c) simp_all
  with Cons show ?case by simp
qed

lemma middleware_transport:
  "transport (BodyTracingMiddleware next w r) = foldl w_call w (fst (next (handler_request r)))"
  by (simp add: BodyTracingMiddleware_def handler_request_def split_beta Let_def rw_call_forwards
      split: option.splits)

lemma middleware_panicked:
  "panicked (BodyTracingMiddleware next w r) = snd (next (handler_request r))"
  by (simp add: BodyTracingMiddleware_def handler_request_def split_beta Let_def
      split: option.splits)

lemma ReadAll_ok_rest: "ReadAll b = (d, None, rest) \<Longrightarrow> rest = []"
  by (induction b arbitrary: d rule: ReadAll.induct) (auto split: prod.splits)

text \<open>
  Claim C2, as the code has it. When reading the body of a request that is neither GET nor
  DELETE fails, the middleware adds no \<^verbatim>\<open>http.request.body\<close> event and assigns nothing to
  the request's body: the next handler is called with the original reader in the state the
  failed read left it, so that the bytes read before the failure are gone and the stream
  is empty only if the reader has nothing after its failure. The request is not failed:
  the handler runs, and its calls reach the transport.
\<close>

theorem failed_read_keeps_reader:
  assumes "Body r = Some b" and "Method r \<noteq> ''GET''" and "Method r \<noteq> ''DELETE''"
    and "ReadAll b = (d, Some e, rest)"
  shows "fst (capture_request r) = [] \<and>
         Body (handler_request r) = Some rest \<and>
         ''http.request.body'' \<notin> event_name ` set (events (BodyTracingMiddleware next w r)) \<and>
         transport (BodyTracingMiddleware next w r) = foldl w_call w (fst (next (handler_request r))) \<and>
         panicked (BodyTracingMiddleware next w r) = snd (next (handler_request r))"
proof -
  have c: "capture_request r = ([], r\<lparr>Body := Some rest\<rparr>)"
    using assms by (simp add: capture_request_def)
  have ev: "''http.request.body'' \<notin> event_name ` set (events (BodyTracingMiddleware next w r))"
    using c by (simp add: BodyTracingMiddleware_def split_beta Let_def split: option.splits)
  show ?thesis
    using c ev middleware_panicked[of "next" w r] middleware_transport[of "next" w r]
    by (simp add: handler_request_def)
qed

theorem failed_read_keeps_reader_witness:
  "Body (handler_request \<lparr>Method = ''POST'', Path = ''/tasks'',
      Body = Some [Data ''ab'', Fail ''unexpected EOF'']\<rparr>) = Some [] \<and>
   transport (BodyTracingMiddleware (\<lambda>r. (http_Error ''Invalid request body'' 400, None)) new_ResponseWriter
      \<lparr>Method = ''POST'', Path = ''/tasks'', Body = Some [Data ''ab'', Fail ''unexpected EOF'']\<rparr>) =
     foldl w_call new_ResponseWriter (http_Error ''Invalid request body'' 400)"
  using failed_read_keeps_reader [of "\<lparr>Method = ''POST'', Path = ''/tasks'',
      Body = Some [Data ''ab'', Fail ''unexpected EOF'']\<rparr>" "[Data ''ab'', Fail ''unexpected EOF'']"
      "''ab''" "''unexpected EOF''" "[]" "\<lambda>r. (http_Error ''Invalid request body'' 400, None)" new_ResponseWriter]
  by simp

text \<open>
  Claim C2 as stated fails: a body whose reads keep failing after the first failure (a read
  deadline that has passed) is handed to the handler as it is, a stream whose next read
  fails, not an empty stream.
\<close>

theorem failed_read_not_empty_counterexample:
  "read_fails \<lparr>Method = ''POST'', Path = ''/tasks'',
       Body = Some [Data ''ab'', Fail ''i/o timeout'', Fail ''i/o timeout'']\<rparr> \<and>
   Body (handler_request \<lparr>Method = ''POST'', Path = ''/tasks'',
       Body = Some [Data ''ab'', Fail ''i/o timeout'', Fail ''i/o timeout'']\<rparr>) = Some [Fail ''i/o timeout''] \<and>
   body_content (handler_request \<lparr>Method = ''POST'', Path = ''/tasks'',
       Body = Some [Data ''ab'', Fail ''i/o timeout'', Fail ''i/o timeout'']\<rparr>) = Some ([], Some ''i/o timeout'')"
  by (simp add: read_fails_def handler_request_def capture_request_def body_content_def)

text \<open>
  Claim C3, as the code has it. Unless the middleware's own read of the body fails, the
  next handler reads from its request body exactly what the original body held (the same
  bytes, ending the same way); method and path are never touched. For every request, the
  calls of the handler on the wrapping writer reach the transport's writer unchanged and in
  order, so status, header and bytes of the response are the handler's, and a panic of the
  handler is the handler's too.
\<close>

theorem body_restored_response_forwarded:
  "(\<not> read_fails r \<longrightarrow> body_content (handler_request r) = body_content r) \<and>
   Method (handler_request r) = Method r \<and> Path (handler_request r) = Path r \<and>
   transport (BodyTracingMiddleware next w r) = foldl w_call w (fst (next (handler_request r))) \<and>
   panicked (BodyTracingMiddleware next w r) = snd (next (handler_request r))"
proof -
  have a: "\<not> read_fails r \<Longrightarrow> body_content (handler_request r) = body_content r"
    by (auto simp: read_fails_def body_content_def handler_request_def capture_request_def
        NewReader_def split: option.splits prod.splits)
  show ?thesis
    using a middleware_panicked[of "next" w r] middleware_transport[of "next" w r]
      capture_request_keeps_route[of r]
    by (simp add: handler_request_def)
qed

theorem body_restored_response_forwarded_witness:
  "\<not> read_fails \<lparr>Method = ''POST'', Path = ''/tasks'', Body = Some [Data ''ab'', Data ''cd'']\<rparr> \<and>
   body_content (handler_request \<lparr>Method = ''POST'', Path = ''/tasks'', Body = Some [Data ''ab'', Data ''cd'']\<rparr>)
     = Some (''abcd'', None) \<and>
   transport (BodyTracingMiddleware (\<lambda>r. ([WriteHeader 201, Write ''{}''], None)) new_ResponseWriter
      \<lparr>Method = ''POST'', Path = ''/tasks'', Body = Some [Data ''ab'', Data ''cd'']\<rparr>)
     = \<lparr>header = [], status = Some 201, sent = ''{}''\<rparr>"
  using body_restored_response_forwarded [of
      "\<lparr>Method = ''POST'', Path = ''/tasks'', Body = Some [Data ''ab'', Data ''cd'']\<rparr>"
      "\<lambda>r. ([WriteHeader 201, Write ''{}''], None)" new_ResponseWriter]
  by (simp add: read_fails_def body_content_def new_ResponseWriter_def bodyAllowedForStatus_def)

text \<open>
  Claim C3 as stated fails for a request whose body cannot be read to its end (the client
  closed the connection before the announced length): the handler would have read the two
  bytes that arrived and then the failure, and behind the middleware it reads an empty body.
\<close>

theorem body_not_restored_counterexample:
  "body_content \<lparr>Method = ''POST'', Path = ''/tasks'', Body = Some [Data ''ab'', Fail ''unexpected EOF'']\<rparr>
     = Some (''ab'', Some ''unexpected EOF'') \<and>
   body_content (handler_request
     \<lparr>Method = ''POST'', Path = ''/tasks'', Body = Some [Data ''ab'', Fail ''unexpected EOF'']\<rparr>)
     = Some ([], None)"
  by (simp add: handler_request_def capture_request_def body_content_def)

section \<open>Request metrics\<close>

lemma final_status_error [simp]: "final_status (enableCORS @ http_Error msg code) = code"
  by (simp add: final_status_def enableCORS_def http_Error_def new_ResponseWriter_def Let_def)

lemma final_status_error0 [simp]: "final_status (http_Error msg code) = code"
  by (simp add: final_status_def http_Error_def new_ResponseWriter_def Let_def)

lemma final_status_header [simp]: "final_status (enableCORS @ [WriteHeader code]) = code"
  by (simp add: final_status_def enableCORS_def new_ResponseWriter_def)

lemma final_status_write [simp]: "final_status (enableCORS @ [SetHeader k v, Write b]) = 200"
  by (simp add: final_status_def enableCORS_def new_ResponseWriter_def Let_def)

lemma final_status_header_write [simp]:
  "final_status (enableCORS @ [SetHeader k v, WriteHeader code, Write b]) = code"
  by (simp add: final_status_def enableCORS_def new_ResponseWriter_def Let_def)

lemma recorded_once:
  "filter is_duration (recordRequestMetrics d m e c) = [HistogramRecord d (request_attrs m e c)] \<and>
   filter is_status_counter (recordRequestMetrics d m e c) = [CounterAdd 1 (request_attrs m e c)] \<and>
   filter is_counter (recordRequestMetrics d m e c) = [CounterAdd 1 (request_attrs m e c)]"
  by (simp add: recordRequestMetrics_def request_attrs_def Let_def)


lemma GetTasks_recorded: "recorded_for OpGetTasks ev r (GetTasks cd ev db r)"
  unfolding recorded_for_def GetTasks_def
  by (simp add: recorded_once Let_def split: prod.split sum.split)


lemma CreateTask_recorded: "recorded_for OpCreateTask ev r (CreateTask cd ev db r)"
  unfolding recorded_for_def CreateTask_def
  by (simp add: recorded_once Let_def split: prod.split sum.split option.split)

lemma DeleteTask_recorded: "recorded_for OpDeleteTask ev r (DeleteTask cd ev db r)"
  unfolding recorded_for_def DeleteTask_def
  by (simp add: recorded_once Let_def split: prod.split sum.split option.split)

lemma CompleteTask_recorded: "recorded_for OpCompleteTask ev r (CompleteTask cd ev db r)"
  unfolding recorded_for_def CompleteTask_def
  by (simp add: recorded_once Let_def split: prod.split sum.split option.split)


text \<open>
  Claim C1, as the code has it. A request that passes the method check and the validation
  of its handler is answered with a success, a not-found or an internal-error response, and
  the handler then records exactly one duration observation and exactly one counter
  increment carrying a status code, both tagged with the method, the endpoint template and
  the status code of the response. In the create, the delete and the complete handler that
  increment is the only increment of the request counter. A preflight request, a
  validation failure (400) and a method that is not allowed (405) record nothing.
\<close>

theorem metrics_after_dispatch:
  "(if Method r = ''OPTIONS'' \<or> final_status (calls (handle op cd ev db r)) = 400 \<or>
        final_status (calls (handle op cd ev db r)) = 405
    then measurements (handle op cd ev db r) = []
    else filter is_duration (measurements (handle op cd ev db r)) =
           [HistogramRecord (elapsed ev)
              (request_attrs (Method r) (endpoint_template op) (final_status (calls (handle op cd ev db r))))] \<and>
         filter is_status_counter (measurements (handle op cd ev db r)) =
           [CounterAdd 1
              (request_attrs (Method r) (endpoint_template op) (final_status (calls (handle op cd ev db r))))] \<and>
         (op \<noteq> OpGetTasks \<longrightarrow>
            filter is_counter (measurements (handle op cd ev db r)) =
              [CounterAdd 1
                 (request_attrs (Method r) (endpoint_template op) (final_status (calls (handle op cd ev db r))))]))"
proof -
  have "recorded_for op ev r (handle op cd ev db r)"
    by (cases op)
      (simp_all add: GetTasks_recorded CreateTask_recorded DeleteTask_recorded CompleteTask_recorded)
  then show ?thesis
    unfolding recorded_for_def .
qed

lemma Atoi_7: "Atoi ''7'' = Some 7"
  by (simp add: Atoi_def is_digit_def digits_value_def Let_def)

lemma Atoi_abc: "Atoi ''abc'' = None"
  by (simp add: Atoi_def is_digit_def digits_value_def Let_def)

lemma sample_delete_missing:
  "DeleteTask sample_codec sample_env empty_DB \<lparr>Method = ''DELETE'', Path = ''/tasks/7'', Body = None\<rparr> =
     \<lparr>calls = enableCORS @ http_Error ''Task not found'' 404,
      measurements = recordRequestMetrics 3 ''DELETE'' ''/tasks/:id'' 404,
      store = conn_send delete_query [Int64 7] empty_DB\<rparr>"
  by (simp add: DeleteTask_def TrimPrefix_def HasPrefix_def Atoi_7 sample_env_def
      DB_DeleteTask_def sql_delete_def Let_def conn_send_def empty_DB_def)

theorem metrics_after_dispatch_witness:
  "final_status (calls (handle OpDeleteTask sample_codec sample_env empty_DB
      \<lparr>Method = ''DELETE'', Path = ''/tasks/7'', Body = None\<rparr>)) = 404 \<and>
   filter is_duration (measurements (handle OpDeleteTask sample_codec sample_env empty_DB
      \<lparr>Method = ''DELETE'', Path = ''/tasks/7'', Body = None\<rparr>)) =
     [HistogramRecord 3 (request_attrs ''DELETE'' ''/tasks/:id'' 404)] \<and>
   filter is_status_counter (measurements (handle OpDeleteTask sample_codec sample_env empty_DB
      \<lparr>Method = ''DELETE'', Path = ''/tasks/7'', Body = None\<rparr>)) =
     [CounterAdd 1 (request_attrs ''DELETE'' ''/tasks/:id'' 404)] \<and>
   OpDeleteTask \<noteq> OpGetTasks \<and>
   filter is_counter (measurements (handle OpDeleteTask sample_codec sample_env empty_DB
      \<lparr>Method = ''DELETE'', Path = ''/tasks/7'', Body = None\<rparr>)) =
     [CounterAdd 1 (request_attrs ''DELETE'' ''/tasks/:id'' 404)]"
  using metrics_after_dispatch [of "\<lparr>Method = ''DELETE'', Path = ''/tasks/7'', Body = None\<rparr>"
      OpDeleteTask sample_codec sample_env empty_DB]
  by (simp add: sample_delete_missing) (simp add: sample_env_def)

text \<open>
  Claim C1 as stated fails on the validation path: DELETE /tasks/abc is answered 400 and
  nothing is recorded. The list handler, alone among the four, also increments the request
  counter before it calls the store, without a status code, so that a GET is counted
  twice.
\<close>

theorem metrics_every_path_counterexample:
  "final_status (calls (DeleteTask sample_codec sample_env empty_DB
      \<lparr>Method = ''DELETE'', Path = ''/tasks/abc'', Body = None\<rparr>)) = 400 \<and>
   measurements (DeleteTask sample_codec sample_env empty_DB
      \<lparr>Method = ''DELETE'', Path = ''/tasks/abc'', Body = None\<rparr>) = [] \<and>
   final_status (calls (GetTasks sample_codec sample_env empty_DB
      \<lparr>Method = ''GET'', Path = ''/tasks'', Body = None\<rparr>)) = 200 \<and>
   length (filter is_counter (measurements (GetTasks sample_codec sample_env empty_DB
      \<lparr>Method = ''GET'', Path = ''/tasks'', Body = None\<rparr>))) = 2"
  by (simp add: DeleteTask_def GetTasks_def TrimPrefix_def HasPrefix_def Atoi_abc sample_env_def
      DB_GetAllTasks_def Let_def recordRequestMetrics_def)

section \<open>The persistence operations\<close>

subsection \<open>Delete\<close>

lemma rows_conn_send [simp]: "rows (conn_send q args db) = rows db"
  by (simp add: conn_send_def)

lemma seq_conn_send [simp]: "seq (conn_send q args db) = seq db"
  by (simp add: conn_send_def)









subsection \<open>Complete\<close>

lemma filter_updated:
  "filter (\<lambda>t. ID t = ident) (map (\<lambda>t. if ID t = ident then t\<lparr>Completed := True\<rparr> else t) ts) =
     map (\<lambda>t. t\<lparr>Completed := True\<rparr>) (filter (\<lambda>t. ID t = ident) ts)"
  by (induction ts) auto

lemma update_again:
  "map (\<lambda>t. if ID t = ident then t\<lparr>Completed := True\<rparr> else t)
     (map (\<lambda>t. if ID t = ident then t\<lparr>Completed := True\<rparr> else t) ts) =
   map (\<lambda>t. if ID t = ident then t\<lparr>Completed := True\<rparr> else t) ts"
  by (induction ts) auto

lemma DB_CompleteTask_result:
  "fst (DB_CompleteTask None db ident) =
     (case filter (\<lambda>t. ID t = ident) (rows db) of
        [] \<Rightarrow> Inl ErrNoRows
      | t # _ \<Rightarrow> Inr (t\<lparr>Completed := True\<rparr>))"
  by (simp add: DB_CompleteTask_def sql_update_def Let_def filter_updated split: list.splits)

lemma DB_CompleteTask_rows:
  "rows (snd (DB_CompleteTask None db ident)) =
     map (\<lambda>t. if ID t = ident then t\<lparr>Completed := True\<rparr> else t) (rows db)"
  by (simp add: DB_CompleteTask_def sql_update_def Let_def filter_updated split: list.splits)

lemma filter_key_unique:
  "distinct (map f xs) \<Longrightarrow> x \<in> set xs \<Longrightarrow> filter (\<lambda>t. f t = f x) xs = [x]"
proof (induction xs)
  case Nil
  then show ?case by simp
next
  case (Cons y ys)
  show ?case
  proof (cases "y = x")
    case True
    have "f x \<notin> f ` set ys"
      using Cons.prems(1) True by simp
    then have "\<forall>t \<in> set ys. f t \<noteq> f x"
      by (metis imageI)
    then have "filter (\<lambda>t. f t = f x) ys = []"
      by (simp add: filter_empty_conv)
    with True show ?thesis by simp
  next
    case False
    with Cons.prems have "x \<in> set ys" and "f y \<noteq> f x" by auto
    with Cons show ?thesis by simp
  qed
qed

lemma update_completed_noop:
  assumes "distinct (map ID ts)" and "task \<in> set ts" and "Completed task"
  shows "map (\<lambda>t. if ID t = ID task then t\<lparr>Completed := True\<rparr> else t) ts = ts"
proof -
  have "\<And>t. t \<in> set ts \<Longrightarrow> ID t = ID task \<Longrightarrow> t = task"
    using assms(1,2) by (meson distinct_map inj_onD)
  moreover have "task\<lparr>Completed := True\<rparr> = task"
    using assms(3) by (cases task) simp
  ultimately have "\<And>t. t \<in> set ts \<Longrightarrow> (if ID t = ID task then t\<lparr>Completed := True\<rparr> else t) = t"
    by (metis (full_types))
  then show ?thesis by (simp add: map_idI)
qed

text \<open>
  Claim C8. Completing an identifier that matches no row returns \<^verbatim>\<open>sql.ErrNoRows\<close>.
  Completing a task that is already completed returns that very record with no error and
  leaves the table as it was (identifiers are unique, being the primary key). In general a
  completion of a matching identifier returns a stored record whose flag is true, and a
  second completion returns the same result and leaves the same table as the first.
\<close>

theorem complete_idempotent:
  "(ident \<notin> ID ` set (rows db) \<longrightarrow> fst (DB_CompleteTask None db ident) = Inl ErrNoRows) \<and>
   (distinct (map ID (rows db)) \<and> task \<in> set (rows db) \<and> Completed task \<longrightarrow>
      fst (DB_CompleteTask None db (ID task)) = Inr task \<and>
      rows (snd (DB_CompleteTask None db (ID task))) = rows db) \<and>
   (ident \<in> ID ` set (rows db) \<longrightarrow>
      (\<exists>t. fst (DB_CompleteTask None db ident) = Inr t \<and> ID t = ident \<and> Completed t \<and>
           t \<in> set (rows (snd (DB_CompleteTask None db ident))))) \<and>
   fst (DB_CompleteTask None (snd (DB_CompleteTask None db ident)) ident) =
     fst (DB_CompleteTask None db ident) \<and>
   rows (snd (DB_CompleteTask None (snd (DB_CompleteTask None db ident)) ident)) =
     rows (snd (DB_CompleteTask None db ident))"
proof -
  have nf: "ident \<notin> ID ` set (rows db) \<Longrightarrow> fst (DB_CompleteTask None db ident) = Inl ErrNoRows"
  proof -
    assume "ident \<notin> ID ` set (rows db)"
    then have "filter (\<lambda>t. ID t = ident) (rows db) = []"
      by (auto simp: filter_empty_conv)
    then show ?thesis by (simp add: DB_CompleteTask_result)
  qed
  have already: "distinct (map ID (rows db)) \<Longrightarrow> task \<in> set (rows db) \<Longrightarrow> Completed task \<Longrightarrow>
      fst (DB_CompleteTask None db (ID task)) = Inr task \<and>
      rows (snd (DB_CompleteTask None db (ID task))) = rows db"
    by (simp add: DB_CompleteTask_result DB_CompleteTask_rows filter_key_unique
        update_completed_noop)
  have found: "ident \<in> ID ` set (rows db) \<Longrightarrow>
      (\<exists>t. fst (DB_CompleteTask None db ident) = Inr t \<and> ID t = ident \<and> Completed t \<and>
           t \<in> set (rows (snd (DB_CompleteTask None db ident))))"
  proof -
    assume "ident \<in> ID ` set (rows db)"
    then obtain x where x: "x \<in> set (rows db)" "ID x = ident" by auto
    then have "filter (\<lambda>t. ID t = ident) (rows db) \<noteq> []"
      by (auto simp: filter_empty_conv)
    then obtain y ys where y: "filter (\<lambda>t. ID t = ident) (rows db) = y # ys"
      by (cases "filter (\<lambda>t. ID t = ident) (rows db)") auto
    then have "y \<in> set (filter (\<lambda>t. ID t = ident) (rows db))" by simp
    then have yin: "y \<in> set (rows db)" and yid: "ID y = ident" by auto
    have "y\<lparr>Completed := True\<rparr> \<in> set (rows (snd (DB_CompleteTask None db ident)))"
      using yin yid by (force simp: DB_CompleteTask_rows)
    then show ?thesis
      using y yid by (simp add: DB_CompleteTask_result)
  qed
  have again1: "fst (DB_CompleteTask None (snd (DB_CompleteTask None db ident)) ident) =
     fst (DB_CompleteTask None db ident)"
    by (simp add: DB_CompleteTask_result DB_CompleteTask_rows filter_updated split: list.splits)
  have again2: "rows (snd (DB_CompleteTask None (snd (DB_CompleteTask None db ident)) ident)) =
     rows (snd (DB_CompleteTask None db ident))"
    by (simp add: DB_CompleteTask_rows update_again)
  show ?thesis
    using nf already found again1 again2 by blast
qed


theorem complete_idempotent_witness:
  "2 \<notin> ID ` set (rows sample_DB) \<and>
   fst (DB_CompleteTask None sample_DB 2) = Inl ErrNoRows \<and>
   distinct (map ID (rows sample_DB)) \<and> sample_task \<in> set (rows sample_DB) \<and>
   Completed sample_task \<and> 1 \<in> ID ` set (rows sample_DB) \<and>
   fst (DB_CompleteTask None sample_DB 1) = Inr sample_task \<and>
   rows (snd (DB_CompleteTask None sample_DB 1)) = rows sample_DB"
proof -
  have i: "1 \<in> ID ` set (rows sample_DB)" "2 \<notin> ID ` set (rows sample_DB)"
    "distinct (map ID (rows sample_DB))" "sample_task \<in> set (rows sample_DB)"
    "Completed sample_task" "ID sample_task = 1"
    by (simp_all add: sample_DB_def sample_task_def)
  show ?thesis
    using complete_idempotent [of 2 sample_DB sample_task]
      complete_idempotent [of 1 sample_DB sample_task] i
    by simp
qed

subsection \<open>List\<close>

lemma scan_rows_all:
  "scan_rows ts acc = (if ts = [] then acc else Some ((case acc of None \<Rightarrow> [] | Some xs \<Rightarrow> xs) @ ts))"
  by (induction ts arbitrary: acc) (auto split: option.splits)

lemma sql_select_mset: "mset (sql_select db) = mset (rows db)"
  by (simp add: sql_select_def)

lemma sql_select_sorted: "sorted_wrt (\<lambda>a b. CreatedAt b \<le> CreatedAt a) (sql_select db)"
proof -
  have "sorted (map (\<lambda>t. - CreatedAt t) (sql_select db))"
    by (simp add: sql_select_def)
  then show ?thesis
    by (simp add: sorted_map)
qed

lemma sql_select_empty: "(sql_select db = []) = (rows db = [])"
  using sql_select_mset[of db] by (metis mset_zero_iff)

lemma sql_select_nil: "rows db = [] \<Longrightarrow> sql_select db = []"
  by (simp add: sql_select_def)

lemma DB_GetAllTasks_result:
  "DB_GetAllTasks None db =
     (Inr (if rows db = [] then None else Some (sql_select (conn_send select_query [] db))),
      conn_send select_query [] db)"
  by (simp add: DB_GetAllTasks_def Let_def scan_rows_all sql_select_empty)

lemma sql_select_conn_send [simp]: "sql_select (conn_send q args db) = sql_select db"
  by (simp add: sql_select_def)

text \<open>
  Claim C9, as the code has it. The list operation of the persistence layer returns all
  stored tasks, newest first, but as the \<^verbatim>\<open>nil\<close> slice when the table has no rows; the
  handler replaces \<^verbatim>\<open>nil\<close> by an empty collection, so that GET /tasks answers 200 with
  the rows newest first and, on an empty store, with the empty JSON array.
\<close>

theorem list_newest_first:
  "fst (DB_GetAllTasks None db) = Inr (if rows db = [] then None else Some (sql_select db)) \<and>
   mset (sql_select db) = mset (rows db) \<and>
   sorted_wrt (\<lambda>a b. CreatedAt b \<le> CreatedAt a) (sql_select db) \<and>
   (Method r = ''GET'' \<and> fault ev = None \<longrightarrow>
      calls (GetTasks cd ev db r) =
        enableCORS @ [SetHeader ''Content-Type'' ''application/json'',
                      Write (Encode_tasks cd (sql_select db))] \<and>
      final_status (calls (GetTasks cd ev db r)) = 200) \<and>
   (rows db = [] \<longrightarrow> Encode_tasks cd (sql_select db) = ''[]'' @ [CHR 0x0A])"
proof -
  have h: "Method r = ''GET'' \<Longrightarrow> fault ev = None \<Longrightarrow>
      calls (GetTasks cd ev db r) =
        enableCORS @ [SetHeader ''Content-Type'' ''application/json'',
                      Write (Encode_tasks cd (sql_select db))]"
    by (cases "rows db = []") (simp_all add: GetTasks_def DB_GetAllTasks_result Let_def sql_select_nil)
  have e: "rows db = [] \<Longrightarrow> Encode_tasks cd (sql_select db) = ''[]'' @ [CHR 0x0A]"
    by (simp add: sql_select_nil Encode_tasks_def)
  show ?thesis
    using h e by (simp add: DB_GetAllTasks_result sql_select_mset sql_select_sorted)
qed

theorem list_newest_first_witness:
  "fst (DB_GetAllTasks None sample_DB) = Inr (Some [sample_task]) \<and>
   Method \<lparr>Method = ''GET'', Path = ''/tasks'', Body = None\<rparr> = ''GET'' \<and> fault sample_env = None \<and>
   rows empty_DB = [] \<and>
   calls (GetTasks sample_codec sample_env empty_DB \<lparr>Method = ''GET'', Path = ''/tasks'', Body = None\<rparr>) =
     enableCORS @ [SetHeader ''Content-Type'' ''application/json'', Write (''[]'' @ [CHR 0x0A])] \<and>
   final_status (calls (GetTasks sample_codec sample_env empty_DB
     \<lparr>Method = ''GET'', Path = ''/tasks'', Body = None\<rparr>)) = 200"
proof -
  have s: "sql_select sample_DB = [sample_task]" "rows sample_DB \<noteq> []"
    by (simp_all add: sql_select_def sample_DB_def)
  have f: "fault sample_env = None" by (simp add: sample_env_def)
  have e: "rows empty_DB = []" by (simp add: empty_DB_def)
  have n: "sql_select empty_DB = []" by (simp add: sql_select_nil e)
  show ?thesis
    using list_newest_first [of sample_DB "\<lparr>Method = ''GET'', Path = ''/tasks'', Body = None\<rparr>" sample_env sample_codec]
      list_newest_first [of empty_DB "\<lparr>Method = ''GET'', Path = ''/tasks'', Body = None\<rparr>" sample_env sample_codec]
      s f e n
    by simp
qed

text \<open>
  Claim C9 as stated fails in the persistence layer: with no rows, \<^verbatim>\<open>GetAllTasks\<close> returns
  the slice it declared and never appended to, which is \<^verbatim>\<open>nil\<close>.
\<close>

theorem list_absent_counterexample:
  "fst (DB_GetAllTasks None empty_DB) = Inr None"
  by (simp add: DB_GetAllTasks_def Let_def empty_DB_def conn_send_def sql_select_def)

subsection \<open>Create\<close>

lemma foldr_max_ge: "m \<le> foldr (\<lambda>t m. max (ID t) m) ts (m::int)"
  by (induction ts) auto

lemma foldr_max_member: "t \<in> set ts \<Longrightarrow> ID t \<le> foldr (\<lambda>t m. max (ID t) m) ts (m::int)"
  by (induction ts) auto

lemma next_rowid_fresh: "t \<in> set (rows db) \<Longrightarrow> ID t < next_rowid db"
  using foldr_max_member[of t "rows db" "seq db"] by (simp add: next_rowid_def)

lemma next_rowid_seq: "seq db < next_rowid db"
  using foldr_max_ge[of "seq db" "rows db"] by (simp add: next_rowid_def)

lemma next_rowid_conn_send [simp]: "next_rowid (conn_send q args db) = next_rowid db"
  by (simp add: next_rowid_def)

lemma DB_CreateTask_result:
  "title \<noteq> ''errorTest'' \<Longrightarrow>
   DB_CreateTask None now db title =
     (Inr \<lparr>ID = next_rowid db, Title = title, Completed = False, CreatedAt = now\<rparr>,
      (conn_send insert_query [String title] db)
        \<lparr>rows := rows db @ [\<lparr>ID = next_rowid db, Title = title, Completed = False, CreatedAt = now\<rparr>],
         seq := next_rowid db\<rparr>)"
  by (simp add: DB_CreateTask_def sql_insert_def Let_def)

lemma count_list_sql_select: "count_list (sql_select db) t = count_list (rows db) t"
  using sql_select_mset[of db] by (metis count_mset)

text \<open>
  Claim C5, as the code has it. For every title other than the reserved \<^verbatim>\<open>errorTest\<close>, on
  a store that executes the statement, the create operation sends one statement and returns
  the inserted record: the title, the flag false, a positive identifier above every
  identifier of the table and the timestamp of the insertion. A list that follows contains
  that record exactly once. For a POST carrying such a title, non-empty, the handler
  answers 201 with the JSON of that record. For the title \<^verbatim>\<open>errorTest\<close>, on every store
  and whatever the driver does, the create operation returns its simulated error and leaves
  the store as it was, and a POST carrying that title is answered 500.
\<close>

theorem create_then_list:
  "(title \<noteq> ''errorTest'' \<and> 0 \<le> seq db \<longrightarrow>
    (\<exists>task db'.
      DB_CreateTask None now db title = (Inr task, db') \<and>
      Title task = title \<and> \<not> Completed task \<and> 0 < ID task \<and> CreatedAt task = now \<and>
      (\<forall>t \<in> set (rows db). ID t < ID task) \<and>
      journal db' = journal db @
        [\<lparr>stmt_text = insert_query, stmt_args = [String title],
          span_formatted = formatQueryWithArgs insert_query [String title]\<rparr>] \<and>
      (\<exists>ts. fst (DB_GetAllTasks None db') = Inr (Some ts) \<and> count_list ts task = 1) \<and>
      (Method r = ''POST'' \<and> decodeTitle cd (Body r) = Some title \<and> title \<noteq> [] \<and>
       fault ev = None \<and> clock ev = now \<longrightarrow>
         calls (CreateTask cd ev db r) =
           enableCORS @ [SetHeader ''Content-Type'' ''application/json'', WriteHeader 201,
                         Write (Encode_task cd task)] \<and>
         store (CreateTask cd ev db r) = db'))) \<and>
   DB_CreateTask flt now db ''errorTest'' = (Inl (Errorf simulated_error), db) \<and>
   (Method r = ''POST'' \<and> decodeTitle cd (Body r) = Some ''errorTest'' \<longrightarrow>
      calls (CreateTask cd ev db r) = enableCORS @ http_Error ''Internal server error'' 500 \<and>
      final_status (calls (CreateTask cd ev db r)) = 500 \<and>
      store (CreateTask cd ev db r) = db)"
proof -
  have reserved: "DB_CreateTask flt now db ''errorTest'' = (Inl (Errorf simulated_error), db)"
    by (simp add: DB_CreateTask_def)
  have refused: "Method r = ''POST'' \<Longrightarrow> decodeTitle cd (Body r) = Some ''errorTest'' \<Longrightarrow>
      calls (CreateTask cd ev db r) = enableCORS @ http_Error ''Internal server error'' 500 \<and>
      final_status (calls (CreateTask cd ev db r)) = 500 \<and>
      store (CreateTask cd ev db r) = db"
    by (simp add: CreateTask_def DB_CreateTask_def)
  have created: "\<exists>task db'.
      DB_CreateTask None now db title = (Inr task, db') \<and>
      Title task = title \<and> \<not> Completed task \<and> 0 < ID task \<and> CreatedAt task = now \<and>
      (\<forall>t \<in> set (rows db). ID t < ID task) \<and>
      journal db' = journal db @
        [\<lparr>stmt_text = insert_query, stmt_args = [String title],
          span_formatted = formatQueryWithArgs insert_query [String title]\<rparr>] \<and>
      (\<exists>ts. fst (DB_GetAllTasks None db') = Inr (Some ts) \<and> count_list ts task = 1) \<and>
      (Method r = ''POST'' \<and> decodeTitle cd (Body r) = Some title \<and> title \<noteq> [] \<and>
       fault ev = None \<and> clock ev = now \<longrightarrow>
         calls (CreateTask cd ev db r) =
           enableCORS @ [SetHeader ''Content-Type'' ''application/json'', WriteHeader 201,
                         Write (Encode_task cd task)] \<and>
         store (CreateTask cd ev db r) = db')"
    if assms: "title \<noteq> ''errorTest''" "0 \<le> seq db"
  proof -
  define task where "task = \<lparr>ID = next_rowid db, Title = title, Completed = False, CreatedAt = now\<rparr>"
  define db' where "db' = (conn_send insert_query [String title] db)\<lparr>rows := rows db @ [task], seq := next_rowid db\<rparr>"
  have c: "DB_CreateTask None now db title = (Inr task, db')"
    using assms(1) by (simp add: DB_CreateTask_result task_def db'_def)
  have pos: "0 < ID task"
    using next_rowid_seq[of db] assms(2) by (simp add: task_def)
  have j: "journal db' = journal db @
        [\<lparr>stmt_text = insert_query, stmt_args = [String title],
          span_formatted = formatQueryWithArgs insert_query [String title]\<rparr>]"
    by (simp add: db'_def conn_send_def attributesGetter_def)
  have above: "\<forall>t \<in> set (rows db). ID t < ID task"
    using next_rowid_fresh[of _ db] by (simp add: task_def)
  have new: "task \<notin> set (rows db)"
    using above by auto
  have "count_list (rows db') task = 1"
    using new by (simp add: db'_def)
  then have cnt: "count_list (sql_select db') task = 1"
    by (simp add: count_list_sql_select)
  have ne: "rows db' \<noteq> []" by (simp add: db'_def)
  have l: "fst (DB_GetAllTasks None db') = Inr (Some (sql_select db'))"
    using ne by (simp add: DB_GetAllTasks_result)
  have h: "Method r = ''POST'' \<Longrightarrow> decodeTitle cd (Body r) = Some title \<Longrightarrow> title \<noteq> [] \<Longrightarrow>
       fault ev = None \<Longrightarrow> clock ev = now \<Longrightarrow>
         calls (CreateTask cd ev db r) =
           enableCORS @ [SetHeader ''Content-Type'' ''application/json'', WriteHeader 201,
                         Write (Encode_task cd task)] \<and>
         store (CreateTask cd ev db r) = db'"
    using c by (simp add: CreateTask_def)
  show ?thesis
    using c pos above j cnt l h by (auto simp: task_def)
  qed
  show ?thesis
    using created reserved refused by blast
qed

theorem create_then_list_witness:
  "''Buy milk'' \<noteq> ''errorTest'' \<and> 0 \<le> seq empty_DB \<and>
   fst (DB_CreateTask None 1738144800 empty_DB ''Buy milk'') =
     Inr \<lparr>ID = 1, Title = ''Buy milk'', Completed = False, CreatedAt = 1738144800\<rparr> \<and>
   fst (DB_GetAllTasks None (snd (DB_CreateTask None 1738144800 empty_DB ''Buy milk''))) =
     Inr (Some [\<lparr>ID = 1, Title = ''Buy milk'', Completed = False, CreatedAt = 1738144800\<rparr>]) \<and>
   decodeTitle sample_codec (Some [Data ''Buy milk'']) = Some ''Buy milk'' \<and>
   fault sample_env = None \<and> clock sample_env = 1738144800 \<and>
   final_status (calls (CreateTask sample_codec sample_env empty_DB
     \<lparr>Method = ''POST'', Path = ''/tasks'', Body = Some [Data ''Buy milk'']\<rparr>)) = 201 \<and>
   decodeTitle sample_codec (Some [Data ''errorTest'']) = Some ''errorTest'' \<and>
   final_status (calls (CreateTask sample_codec sample_env sample_DB
     \<lparr>Method = ''POST'', Path = ''/tasks'', Body = Some [Data ''errorTest'']\<rparr>)) = 500 \<and>
   store (CreateTask sample_codec sample_env sample_DB
     \<lparr>Method = ''POST'', Path = ''/tasks'', Body = Some [Data ''errorTest'']\<rparr>) = sample_DB"
proof -
  have d': "decodeTitle sample_codec (Some [Data ''errorTest'']) = Some ''errorTest''"
    by (simp add: sample_codec_def)
  have m: "\<And>b. Method \<lparr>Method = ''POST'', Path = ''/tasks'', Body = b\<rparr> = ''POST''"
    by simp
  have x: "final_status (calls (CreateTask sample_codec sample_env sample_DB
       \<lparr>Method = ''POST'', Path = ''/tasks'', Body = Some [Data ''errorTest'']\<rparr>)) = 500 \<and>
     store (CreateTask sample_codec sample_env sample_DB
       \<lparr>Method = ''POST'', Path = ''/tasks'', Body = Some [Data ''errorTest'']\<rparr>) = sample_DB"
    using create_then_list [of "''errorTest''" sample_DB 0
        "\<lparr>Method = ''POST'', Path = ''/tasks'', Body = Some [Data ''errorTest'']\<rparr>"
        sample_codec sample_env None] d' m
    by simp
  have d: "decodeTitle sample_codec (Some [Data ''Buy milk'']) = Some ''Buy milk''"
    by (simp add: sample_codec_def)
  have e: "fault sample_env = None" "clock sample_env = 1738144800"
    by (simp_all add: sample_env_def)
  have c: "DB_CreateTask None 1738144800 empty_DB ''Buy milk'' =
      (Inr \<lparr>ID = 1, Title = ''Buy milk'', Completed = False, CreatedAt = 1738144800\<rparr>,
       (conn_send insert_query [String ''Buy milk''] empty_DB)
         \<lparr>rows := [\<lparr>ID = 1, Title = ''Buy milk'', Completed = False, CreatedAt = 1738144800\<rparr>],
          seq := 1\<rparr>)"
    by (simp add: DB_CreateTask_result next_rowid_def empty_DB_def)
  have g: "fst (DB_GetAllTasks None (snd (DB_CreateTask None 1738144800 empty_DB ''Buy milk''))) =
     Inr (Some [\<lparr>ID = 1, Title = ''Buy milk'', Completed = False, CreatedAt = 1738144800\<rparr>])"
    by (simp add: c DB_GetAllTasks_result sql_select_def)
  have h: "final_status (calls (CreateTask sample_codec sample_env empty_DB
     \<lparr>Method = ''POST'', Path = ''/tasks'', Body = Some [Data ''Buy milk'']\<rparr>)) = 201"
    by (simp add: CreateTask_def d e c)
  have s: "0 \<le> seq empty_DB" by (simp add: empty_DB_def)
  show ?thesis
    using create_then_list [of "''Buy milk''" empty_DB 1738144800
        "\<lparr>Method = ''POST'', Path = ''/tasks'', Body = Some [Data ''Buy milk'']\<rparr>"
        sample_codec sample_env None] d d' e g h s x
    by (simp add: c)
qed

text \<open>
  Claim C5 as stated fails for the non-empty title \<^verbatim>\<open>errorTest\<close>: the create operation
  returns its simulated error without touching the store, and the handler answers 500.
\<close>

theorem create_error_title_counterexample:
  "''errorTest'' \<noteq> [] \<and>
   DB_CreateTask None 1738144800 empty_DB ''errorTest'' = (Inl (Errorf simulated_error), empty_DB) \<and>
   final_status (calls (CreateTask sample_codec sample_env empty_DB
     \<lparr>Method = ''POST'', Path = ''/tasks'', Body = Some [Data ''errorTest'']\<rparr>)) = 500"
  by (simp add: DB_CreateTask_def CreateTask_def sample_codec_def)


section \<open>The diagnostic formatter\<close>

lemma Contains_char: "Contains s [c] = (c \<in> set s)"
  by (induction s) (auto simp: HasPrefix_def)

lemma placeholder_question: "CHR ''$'' \<notin> set query \<Longrightarrow> placeholder query i = ''?''"
  by (simp add: placeholder_def Contains_char)

lemma placeholder_dollar:
  "CHR ''$'' \<in> set query \<Longrightarrow> placeholder query i = CHR ''$'' # Sprintf_d (int i + 1)"
  by (simp add: placeholder_def Contains_char)

lemma format_loop_enumerate:
  "format_loop query i args acc =
     foldl (\<lambda>acc (j, arg). Replace1 acc (placeholder query j) (value_text arg)) acc (enumerate i args)"
  by (induction args arbitrary: i acc) simp_all

lemma format_loop_question:
  "CHR ''$'' \<notin> set query \<Longrightarrow>
   format_loop query i args acc = foldl (\<lambda>acc arg. Replace1 acc ''?'' (value_text arg)) acc args"
  by (induction args arbitrary: i acc) (simp_all add: placeholder_question)

lemma Replace1_first_char:
  "c \<notin> set pre \<Longrightarrow> Replace1 (pre @ c # post) [c] new = pre @ new @ post"
  by (induction pre) (auto simp: HasPrefix_def)

lemma Replace1_absent_char: "c \<notin> set acc \<Longrightarrow> Replace1 acc [c] new = acc"
  by (induction acc) (auto simp: HasPrefix_def)

text \<open>
  Claim C10, as the code has it. The formatter replaces, for each argument in positional
  order, the first occurrence of that argument's placeholder in the text formatted so far
  by the argument's rendering. The placeholder is the literal question mark when the
  statement contains no dollar sign, and then the formatter is the one the specification
  describes; when the statement contains a dollar sign, the placeholder of argument \<open>i\<close>
  (counted from 1) is the dollar sign followed by \<open>i\<close>. Replacing the first question mark
  leaves the text before and after it as it is, and a text without one unchanged. Strings
  and byte strings are quoted, booleans are TRUE and FALSE, nil is NULL. The statement and
  parameters sent to the store are the original ones; the formatted text only goes to the
  span, and the table is not touched.
\<close>

theorem formatQueryWithArgs_substitutes:
  "formatQueryWithArgs query args =
     foldl (\<lambda>acc (i, arg). Replace1 acc (placeholder query i) (value_text arg)) query (enumerate 0 args) \<and>
   (CHR ''$'' \<notin> set query \<longrightarrow>
      formatQueryWithArgs query args = spec_format query args \<and> placeholder query i = ''?'') \<and>
   (CHR ''$'' \<in> set query \<longrightarrow> placeholder query i = CHR ''$'' # Sprintf_d (int i + 1)) \<and>
   (CHR ''?'' \<notin> set pre \<longrightarrow> Replace1 (pre @ ''?'' @ post) ''?'' new = pre @ new @ post) \<and>
   (CHR ''?'' \<notin> set acc \<longrightarrow> Replace1 acc ''?'' new = acc) \<and>
   value_text (String v) = [CHR 0x27] @ v @ [CHR 0x27] \<and>
   value_text (Bytes v) = [CHR 0x27] @ v @ [CHR 0x27] \<and>
   value_text (Bool True) = ''TRUE'' \<and> value_text (Bool False) = ''FALSE'' \<and>
   value_text Nil = ''NULL'' \<and>
   journal (conn_send query args db) = journal db @
     [\<lparr>stmt_text = query, stmt_args = args, span_formatted = formatQueryWithArgs query args\<rparr>] \<and>
   rows (conn_send query args db) = rows db"
proof -
  have a: "formatQueryWithArgs query args =
     foldl (\<lambda>acc (i, arg). Replace1 acc (placeholder query i) (value_text arg)) query (enumerate 0 args)"
    by (cases args) (simp_all add: formatQueryWithArgs_def format_loop_enumerate)
  have b: "CHR ''$'' \<notin> set query \<Longrightarrow> formatQueryWithArgs query args = spec_format query args"
    by (cases args)
      (simp_all add: formatQueryWithArgs_def spec_format_def format_loop_question placeholder_question)
  have c: "CHR ''?'' \<notin> set pre \<Longrightarrow> Replace1 (pre @ ''?'' @ post) ''?'' new = pre @ new @ post"
    using Replace1_first_char[of "CHR ''?''" pre post new] by simp
  have d: "journal (conn_send query args db) = journal db @
     [\<lparr>stmt_text = query, stmt_args = args, span_formatted = formatQueryWithArgs query args\<rparr>]"
    by (simp add: conn_send_def attributesGetter_def)
  show ?thesis
    using a b c d placeholder_question[of query i] placeholder_dollar[of query i]
      Replace1_absent_char[of "CHR ''?''" acc new]
    by simp
qed

theorem formatQueryWithArgs_substitutes_witness:
  "CHR ''$'' \<notin> set insert_query \<and>
   formatQueryWithArgs insert_query [String ''Buy milk''] =
     ''INSERT INTO tasks (title) VALUES ('' @ [CHR 0x27] @ ''Buy milk'' @ [CHR 0x27] @
     '') RETURNING id, title, completed, created_at'' \<and>
   CHR ''$'' \<in> set ''SELECT $1'' \<and> placeholder ''SELECT $1'' 0 = ''$1'' \<and>
   CHR ''?'' \<notin> set ''a = '' \<and> Replace1 (''a = '' @ ''?'' @ '' OR b = ?'') ''?'' ''TRUE'' = ''a = TRUE OR b = ?'' \<and>
   CHR ''?'' \<notin> set ''COMMIT'' \<and> Replace1 ''COMMIT'' ''?'' ''TRUE'' = ''COMMIT''"
proof -
  have q: "CHR ''$'' \<notin> set insert_query" by (simp add: insert_query_def)
  have s: "spec_format insert_query [String ''Buy milk''] =
     ''INSERT INTO tasks (title) VALUES ('' @ [CHR 0x27] @ ''Buy milk'' @ [CHR 0x27] @
     '') RETURNING id, title, completed, created_at''"
    by (simp add: spec_format_def insert_query_def HasPrefix_def)
  have p: "Sprintf_d 1 = ''1''" by code_simp
  have d: "CHR ''$'' \<in> set ''SELECT $1''" by simp
  have n: "CHR ''?'' \<notin> set ''a = ''" "CHR ''?'' \<notin> set ''COMMIT''" by simp_all
  note inst = formatQueryWithArgs_substitutes [of insert_query "[String ''Buy milk'']" 0 "''a = ''"
        "'' OR b = ?''" "''TRUE''" "''COMMIT''"]
  have f: "formatQueryWithArgs insert_query [String ''Buy milk''] =
      spec_format insert_query [String ''Buy milk'']"
    using inst q by blast
  have r1: "Replace1 (''a = '' @ ''?'' @ '' OR b = ?'') ''?'' ''TRUE'' = ''a = '' @ ''TRUE'' @ '' OR b = ?''"
    using inst n(1) by blast
  have r2: "Replace1 ''COMMIT'' ''?'' ''TRUE'' = ''COMMIT''"
    using inst n(2) by blast
  have pd: "placeholder ''SELECT $1'' 0 = CHR ''$'' # Sprintf_d (int 0 + 1)"
    using formatQueryWithArgs_substitutes [of "''SELECT $1''" "[]" 0] d by blast
  show ?thesis
    using q d n f s r1 r2 pd p by simp
qed

text \<open>
  Claim C10 as stated fails for a statement that contains a dollar sign: the placeholder is
  then \<^verbatim>\<open>$1\<close>, and the literal question mark is left alone.
\<close>

theorem formatQueryWithArgs_dollar_counterexample:
  "formatQueryWithArgs ''SELECT $1, ?'' [Int64 5] = ''SELECT 5, ?'' \<and>
   spec_format ''SELECT $1, ?'' [Int64 5] = ''SELECT $1, 5''"
  by code_simp

section \<open>The store's keys, and identifiers in paths\<close>

text \<open>
  The two facts about the store that the properties of create and complete assume hold of
  the empty store and are kept by every operation, whether the driver fails or not: the
  \<^verbatim>\<open>AUTOINCREMENT\<close> counter is not negative, and no two rows share an identifier.
\<close>

lemma keys_kept_empty: "0 \<le> seq empty_DB \<and> distinct (map ID (rows empty_DB))"
  by (simp add: empty_DB_def)

lemma keys_kept_create:
  assumes "0 \<le> seq db" and "distinct (map ID (rows db))"
  shows "0 \<le> seq (snd (DB_CreateTask f now db title)) \<and>
         distinct (map ID (rows (snd (DB_CreateTask f now db title))))"
proof -
  have "next_rowid db \<notin> ID ` set (rows db)"
    using next_rowid_fresh[of _ db] by force
  moreover have "0 \<le> next_rowid db"
    using next_rowid_seq[of db] assms(1) by simp
  ultimately show ?thesis
    using assms by (simp add: DB_CreateTask_def sql_insert_def Let_def split: option.splits)
qed

lemma keys_kept_delete:
  assumes "0 \<le> seq db" and "distinct (map ID (rows db))"
  shows "0 \<le> seq (snd (DB_DeleteTask f db ident)) \<and>
         distinct (map ID (rows (snd (DB_DeleteTask f db ident))))"
  using assms
  by (simp add: DB_DeleteTask_def sql_delete_def Let_def distinct_map_filter split: option.splits)

lemma ID_updated:
  "map ID (map (\<lambda>t. if ID t = ident then t\<lparr>Completed := True\<rparr> else t) ts) = map ID ts"
  by (induction ts) auto

lemma keys_kept_complete:
  assumes "0 \<le> seq db" and "distinct (map ID (rows db))"
  shows "0 \<le> seq (snd (DB_CompleteTask f db ident)) \<and>
         distinct (map ID (rows (snd (DB_CompleteTask f db ident))))"
proof -
  have "distinct (map ID (map (\<lambda>t. if ID t = ident then t\<lparr>Completed := True\<rparr> else t) (rows db)))"
    using assms(2) by (simp only: ID_updated)
  then show ?thesis
    using assms
    by (simp add: DB_CompleteTask_def sql_update_def Let_def split: option.splits list.splits)
qed

lemma keys_kept_list:
  "seq (snd (DB_GetAllTasks f db)) = seq db \<and> rows (snd (DB_GetAllTasks f db)) = rows db"
  by (simp add: DB_GetAllTasks_def Let_def split: option.splits)

text \<open>
  The decimal text of every 64-bit identifier is read back by \<^verbatim>\<open>strconv.Atoi\<close>, so that
  the path \<^verbatim>\<open>/tasks/\<close> followed by it names that identifier for the delete handler.
\<close>

lemma digits_value_snoc: "digits_value (ds @ [c]) = 10 * digits_value ds + (of_char c - 48)"
  by (simp add: digits_value_def)

lemma is_digit_digit_char: "d < 10 \<Longrightarrow> is_digit (digit_char d) \<and> of_char (digit_char d) - 48 = d"
  by (simp add: is_digit_def digit_char_def)

lemma nat_digits_props:
  "list_all is_digit (nat_digits n) \<and> digits_value (nat_digits n) = n \<and> nat_digits n \<noteq> [] \<and>
   hd (nat_digits n) \<noteq> CHR ''-'' \<and> hd (nat_digits n) \<noteq> CHR ''+''"
proof (induction n rule: nat_digits.induct)
  case (1 n)
  show ?case
  proof (cases "n < 10")
    case True
    have "is_digit (digit_char n)" "of_char (digit_char n) - 48 = n"
      using is_digit_digit_char[OF True] by simp_all
    moreover have "digit_char n \<noteq> CHR ''-''" "digit_char n \<noteq> CHR ''+''"
      using \<open>is_digit (digit_char n)\<close> by (auto simp: is_digit_def)
    ultimately show ?thesis
      using True by (simp add: nat_digits.simps[of n] digits_value_def)
  next
    case False
    have m: "n mod 10 < 10" by simp
    have ih: "list_all is_digit (nat_digits (n div 10))" "digits_value (nat_digits (n div 10)) = n div 10"
      "nat_digits (n div 10) \<noteq> []" "hd (nat_digits (n div 10)) \<noteq> CHR ''-''"
      "hd (nat_digits (n div 10)) \<noteq> CHR ''+''"
      using 1[OF False] by simp_all
    have eq: "nat_digits n = nat_digits (n div 10) @ [digit_char (n mod 10)]"
      using False by (simp add: nat_digits.simps[of n])
    show ?thesis
      using ih is_digit_digit_char[OF m] by (simp add: eq digits_value_snoc)
  qed
qed

lemma Atoi_Sprintf_d:
  assumes "- (2 ^ 63) \<le> v" and "v \<le> 2 ^ 63 - 1"
  shows "Atoi (Sprintf_d v) = Some v"
proof (cases "v < 0")
  case True
  then show ?thesis
    using assms nat_digits_props[of "nat (- v)"]
    by (simp add: Atoi_def Sprintf_d_def Let_def)
next
  case False
  then show ?thesis
    using assms nat_digits_props[of "nat v"]
    by (simp add: Atoi_def Sprintf_d_def Let_def)
qed


lemma canonical_path_parses:
  assumes "- (2 ^ 63) \<le> v" and "v \<le> 2 ^ 63 - 1"
  shows "Atoi (TrimPrefix (''/tasks/'' @ Sprintf_d v) ''/tasks/'') = Some v"
  using Atoi_Sprintf_d[OF assms] by (simp add: TrimPrefix_def HasPrefix_def)

end
